theory Spec2Isabelle
  imports Main
begin

section \<open>JavaScript strings\<close>

text \<open>
  A JavaScript string is modelled as a \<^typ>\<open>string\<close>; each \<^typ>\<open>char\<close> stands for one
  UTF-16 code unit below 256. The character classes are those of the regular
  expressions in the source, restricted to that range: \<open>\s\<close> is \<open>is_space\<close>,
  \<open>\w\<close> is \<open>is_word\<close>, \<open>.\<close> (any character but a line terminator) is \<open>is_dot\<close>.
\<close>

definition is_space :: "char \<Rightarrow> bool" where
  "is_space c = (c = CHR '' '' \<or> c = CHR 0x09 \<or> c = CHR 0x0A \<or> c = CHR 0x0B
     \<or> c = CHR 0x0C \<or> c = CHR 0x0D \<or> c = CHR 0xA0)"

definition is_digit :: "char \<Rightarrow> bool" where
  "is_digit c = (let n = (of_char c :: nat) in 48 \<le> n \<and> n \<le> 57)"

definition is_upper :: "char \<Rightarrow> bool" where
  "is_upper c = (let n = (of_char c :: nat) in 65 \<le> n \<and> n \<le> 90)"

definition is_lower :: "char \<Rightarrow> bool" where
  "is_lower c = (let n = (of_char c :: nat) in 97 \<le> n \<and> n \<le> 122)"

definition is_word :: "char \<Rightarrow> bool" where
  "is_word c = (is_upper c \<or> is_lower c \<or> is_digit c \<or> c = CHR ''_'')"

definition is_dot :: "char \<Rightarrow> bool" where
  "is_dot c = (c \<noteq> CHR 0x0A \<and> c \<noteq> CHR 0x0D)"

definition none_of :: "string \<Rightarrow> char \<Rightarrow> bool" where
  "none_of cs c = (c \<notin> set cs)"

definition one_of :: "string \<Rightarrow> char \<Rightarrow> bool" where
  "one_of cs c = (c \<in> set cs)"

definition is_word_or_dot :: "char \<Rightarrow> bool" where
  "is_word_or_dot c = (is_word c \<or> c = CHR ''.'')"

text \<open>\<open>String.prototype.trim\<close>: white space and line terminators off both ends.\<close>

definition str_trim :: "string \<Rightarrow> string" where
  "str_trim s = rev (dropWhile is_space (rev (dropWhile is_space s)))"

text \<open>\<open>s.startsWith(w)\<close>.\<close>

definition starts_with :: "string \<Rightarrow> string \<Rightarrow> bool" where
  "starts_with s w = (take (length w) s = w)"

text \<open>\<open>s.includes(sub)\<close>.\<close>

fun str_includes :: "string \<Rightarrow> string \<Rightarrow> bool" where
  "str_includes [] sub = (sub = [])"
| "str_includes (x # xs) sub = (if starts_with (x # xs) sub then True else str_includes xs sub)"

text \<open>
  \<open>s.indexOf(sub, from)\<close> for \<open>from \<ge> 0\<close>: the first index at or after \<open>from\<close> where
  \<open>sub\<close> occurs, or -1. The second argument of \<open>index_from\<close> is the index of the head
  of the text still to be looked at.
\<close>

fun index_from :: "string \<Rightarrow> nat \<Rightarrow> string \<Rightarrow> int" where
  "index_from sub i [] = (if sub = [] then int i else - 1)"
| "index_from sub i (x # xs) =
     (if starts_with (x # xs) sub then int i else index_from sub (Suc i) xs)"

definition str_indexOf :: "string \<Rightarrow> string \<Rightarrow> int \<Rightarrow> int" where
  "str_indexOf s sub from =
     (let k = min (nat from) (length s) in index_from sub k (drop k s))"

text \<open>
  \<open>s.substring(a, b)\<close>: both arguments are clamped to \<open>0 .. length s\<close> and swapped when
  the first is the larger.
\<close>

definition str_substring :: "string \<Rightarrow> int \<Rightarrow> int \<Rightarrow> string" where
  "str_substring s a b =
     (let a' = min (nat a) (length s); b' = min (nat b) (length s);
          lo = min a' b'; hi = max a' b'
      in take (hi - lo) (drop lo s))"

text \<open>
  \<open>s.split(sep)\<close> for a non-empty separator string. The counter is the number of
  characters of a separator just found that are still to be skipped.
\<close>

fun split_go :: "string \<Rightarrow> nat \<Rightarrow> string \<Rightarrow> string \<Rightarrow> string list" where
  "split_go sep n acc [] = [acc]"
| "split_go sep (Suc n) acc (x # xs) = split_go sep n acc xs"
| "split_go sep 0 acc (x # xs) =
     (if starts_with (x # xs) sep then acc # split_go sep (length sep - 1) [] xs
      else split_go sep 0 (acc @ [x]) xs)"

definition str_split :: "string \<Rightarrow> string \<Rightarrow> string list" where
  "str_split s sep = split_go sep 0 [] s"

text \<open>\<open>xs.join(sep)\<close>.\<close>

fun str_join :: "string \<Rightarrow> string list \<Rightarrow> string" where
  "str_join sep [] = []"
| "str_join sep [x] = x"
| "str_join sep (x # y # ys) = x @ sep @ str_join sep (y # ys)"

text \<open>\<open>toLowerCase\<close> and \<open>toUpperCase\<close> on the letters A-Z and a-z.\<close>

definition lower_char :: "char \<Rightarrow> char" where
  "lower_char c = (if is_upper c then char_of ((of_char c :: nat) + 32) else c)"

definition upper_char :: "char \<Rightarrow> char" where
  "upper_char c = (if is_lower c then char_of ((of_char c :: nat) - 32) else c)"

definition toLowerCase :: "string \<Rightarrow> string" where
  "toLowerCase s = map lower_char s"

definition toUpperCase :: "string \<Rightarrow> string" where
  "toUpperCase s = map upper_char s"

text \<open>\<open>s.replace(pat, rep)\<close> with a string pattern: the first occurrence only.\<close>

fun replace_first :: "string \<Rightarrow> string \<Rightarrow> string \<Rightarrow> string" where
  "replace_first pat rep [] = (if pat = [] then rep else [])"
| "replace_first pat rep (x # xs) =
     (if starts_with (x # xs) pat then rep @ drop (length pat) (x # xs)
      else x # replace_first pat rep xs)"

section \<open>Regular expressions\<close>

text \<open>
  The regular expressions of the source are terms of \<open>regex\<close>. Every quantifier in the
  source applies to a single character class, so the starred forms carry a class.
  \<open>RGrp n r\<close> is the capturing group number \<open>n\<close>; a non-capturing group is the
  expression itself. \<open>rmatch r i s c k\<close> matches \<open>r\<close> at index \<open>i\<close>, where \<open>s\<close> is the
  text from \<open>i\<close> on and \<open>c\<close> the captures so far, and calls the continuation \<open>k\<close> with
  the index, text and captures after the match. It backtracks in the order of the
  JavaScript engine: the longest repetition first for a greedy quantifier, the shortest
  first for a lazy one, the left alternative first.
\<close>

datatype regex =
    RLit string
  | RCls "char \<Rightarrow> bool"
  | RStar "char \<Rightarrow> bool"
  | RPlus "char \<Rightarrow> bool"
  | RLazyStar "char \<Rightarrow> bool"
  | RLazyPlus "char \<Rightarrow> bool"
  | RSeq regex regex
  | RAlt regex regex
  | ROpt regex
  | RGrp nat regex
  | RBol
  | REol

type_synonym caps = "(nat \<times> string) list"
type_synonym kont = "nat \<Rightarrow> string \<Rightarrow> caps \<Rightarrow> (nat \<times> caps) option"

fun greedy_star :: "(char \<Rightarrow> bool) \<Rightarrow> nat \<Rightarrow> string \<Rightarrow> caps \<Rightarrow> kont \<Rightarrow> (nat \<times> caps) option" where
  "greedy_star p i [] c k = k i [] c"
| "greedy_star p i (x # xs) c k =
     (if p x then (case greedy_star p (Suc i) xs c k of Some r \<Rightarrow> Some r | None \<Rightarrow> k i (x # xs) c)
      else k i (x # xs) c)"

fun lazy_star :: "(char \<Rightarrow> bool) \<Rightarrow> nat \<Rightarrow> string \<Rightarrow> caps \<Rightarrow> kont \<Rightarrow> (nat \<times> caps) option" where
  "lazy_star p i [] c k = k i [] c"
| "lazy_star p i (x # xs) c k =
     (case k i (x # xs) c of Some r \<Rightarrow> Some r
      | None \<Rightarrow> if p x then lazy_star p (Suc i) xs c k else None)"

fun one_char :: "(char \<Rightarrow> bool) \<Rightarrow> nat \<Rightarrow> string \<Rightarrow> caps \<Rightarrow> kont \<Rightarrow> (nat \<times> caps) option" where
  "one_char p i [] c k = None"
| "one_char p i (x # xs) c k = (if p x then k (Suc i) xs c else None)"

primrec rmatch :: "regex \<Rightarrow> nat \<Rightarrow> string \<Rightarrow> caps \<Rightarrow> kont \<Rightarrow> (nat \<times> caps) option" where
  "rmatch (RLit w) i s c k =
     (if starts_with s w then k (i + length w) (drop (length w) s) c else None)"
| "rmatch (RCls p) i s c k = one_char p i s c k"
| "rmatch (RStar p) i s c k = greedy_star p i s c k"
| "rmatch (RPlus p) i s c k = one_char p i s c (\<lambda>i' s' c'. greedy_star p i' s' c' k)"
| "rmatch (RLazyStar p) i s c k = lazy_star p i s c k"
| "rmatch (RLazyPlus p) i s c k = one_char p i s c (\<lambda>i' s' c'. lazy_star p i' s' c' k)"
| "rmatch (RSeq a b) i s c k = rmatch a i s c (\<lambda>i' s' c'. rmatch b i' s' c' k)"
| "rmatch (RAlt a b) i s c k =
     (case rmatch a i s c k of Some r \<Rightarrow> Some r | None \<Rightarrow> rmatch b i s c k)"
| "rmatch (ROpt a) i s c k =
     (case rmatch a i s c k of Some r \<Rightarrow> Some r | None \<Rightarrow> k i s c)"
| "rmatch (RGrp n a) i s c k =
     rmatch a i s c (\<lambda>i' s' c'. k i' s' ((n, take (i' - i) s) # c'))"
| "rmatch RBol i s c k = (if i = 0 then k i s c else None)"
| "rmatch REol i s c k = (if s = [] then k i s c else None)"

text \<open>A sequence \<open>r1 r2 ... rn\<close>.\<close>

fun seqs :: "regex list \<Rightarrow> regex" where
  "seqs [] = RLit []"
| "seqs [r] = r"
| "seqs (r # rs) = RSeq r (seqs rs)"

text \<open>
  A match: its index, the matched text (\<open>m[0]\<close>) and the captures (\<open>m[n]\<close> is
  \<open>grp m n\<close>, \<open>None\<close> for a group that took no part).
\<close>

record rmatch_result =
  m_index :: nat
  m_text :: string
  m_groups :: caps

definition grp :: "rmatch_result \<Rightarrow> nat \<Rightarrow> string option" where
  "grp m n = map_of (m_groups m) n"

definition match_here :: "regex \<Rightarrow> nat \<Rightarrow> string \<Rightarrow> rmatch_result option" where
  "match_here r i s =
     (case rmatch r i s [] (\<lambda>j s' c. Some (j, c)) of
        None \<Rightarrow> None
      | Some (j, c) \<Rightarrow> Some \<lparr>m_index = i, m_text = take (j - i) s, m_groups = c\<rparr>)"

fun search_from :: "regex \<Rightarrow> nat \<Rightarrow> string \<Rightarrow> rmatch_result option" where
  "search_from r i [] = match_here r i []"
| "search_from r i (x # xs) =
     (case match_here r i (x # xs) of
        Some m \<Rightarrow> Some m
      | None \<Rightarrow> search_from r (Suc i) xs)"

text \<open>\<open>s.match(r)\<close> for a regular expression without the \<open>g\<close> flag: the leftmost match.\<close>

definition str_match :: "string \<Rightarrow> regex \<Rightarrow> rmatch_result option" where
  "str_match s r = search_from r 0 s"

text \<open>
  \<open>s.matchAll(r)\<close>, and \<open>s.match(r)\<close> with the \<open>g\<close> flag: the successive matches, each
  search starting where the last match ended (one further after an empty match). The
  counter is the number of characters of the last match still to be passed over.
\<close>

fun match_all_from :: "regex \<Rightarrow> nat \<Rightarrow> nat \<Rightarrow> string \<Rightarrow> rmatch_result list" where
  "match_all_from r i n [] =
     (if n = 0 then (case match_here r i [] of Some m \<Rightarrow> [m] | None \<Rightarrow> []) else [])"
| "match_all_from r i (Suc n) (x # xs) = match_all_from r (Suc i) n xs"
| "match_all_from r i 0 (x # xs) =
     (case match_here r i (x # xs) of
        Some m \<Rightarrow> m # match_all_from r (Suc i) (length (m_text m) - 1) xs
      | None \<Rightarrow> match_all_from r (Suc i) 0 xs)"

definition str_matchAll :: "string \<Rightarrow> regex \<Rightarrow> rmatch_result list" where
  "str_matchAll s r = match_all_from r 0 0 s"

text \<open>\<open>s.replace(r, f)\<close> with the \<open>g\<close> flag: every match replaced by \<open>f\<close> of it.\<close>

fun replace_all_from :: "regex \<Rightarrow> (rmatch_result \<Rightarrow> string) \<Rightarrow> nat \<Rightarrow> nat \<Rightarrow> string \<Rightarrow> string" where
  "replace_all_from r f i n [] =
     (if n = 0 then (case match_here r i [] of Some m \<Rightarrow> f m | None \<Rightarrow> []) else [])"
| "replace_all_from r f i (Suc n) (x # xs) = replace_all_from r f (Suc i) n xs"
| "replace_all_from r f i 0 (x # xs) =
     (case match_here r i (x # xs) of
        Some m \<Rightarrow>
          (if m_text m = [] then f m @ x # replace_all_from r f (Suc i) 0 xs
           else f m @ replace_all_from r f (Suc i) (length (m_text m) - 1) xs)
      | None \<Rightarrow> x # replace_all_from r f (Suc i) 0 xs)"

definition str_replaceAll :: "string \<Rightarrow> regex \<Rightarrow> (rmatch_result \<Rightarrow> string) \<Rightarrow> string" where
  "str_replaceAll s r f = replace_all_from r f 0 0 s"

section \<open>The data model (src/types/index.ts)\<close>

text \<open>
  The interfaces of the source as records. Field names carry a prefix because several
  interfaces share \<open>name\<close>, \<open>line\<close> and \<open>properties\<close>. An optional field that the code
  may leave \<open>undefined\<close> is an \<open>option\<close>.
\<close>

record FunctionInfo =
  fn_name :: string
  fn_params :: "string list"
  fn_returnType :: "string option"
  fn_line :: nat
  fn_isAsync :: bool
  fn_isExported :: bool
  fn_description :: "string option"

record ClassInfo =
  cls_name :: string
  cls_line :: nat
  cls_methods :: "FunctionInfo list"
  cls_isExported :: bool
  cls_description :: "string option"
  cls_properties :: "string list"

record InterfaceInfo =
  if_name :: string
  if_line :: nat
  if_properties :: "string list"
  if_isExported :: bool
  if_description :: "string option"

record ImportInfo =
  imp_source :: string
  imp_imports :: "string list"
  imp_line :: nat

datatype language = typescript | javascript | python

record FileIndex =
  fi_path :: string
  fi_relativePath :: string
  fi_functions :: "FunctionInfo list"
  fi_classes :: "ClassInfo list"
  fi_interfaces :: "InterfaceInfo list"
  fi_imports :: "ImportInfo list"
  fi_language :: language

record ApiEndpoint =
  ep_method :: string
  ep_path :: string
  ep_handler :: string
  ep_file :: string
  ep_line :: nat
  ep_auth :: bool

record DbColumn =
  col_name :: string
  col_type :: string
  col_nullable :: bool
  col_primary :: bool
  col_foreign :: "string option"

record DbTable =
  tbl_name :: string
  tbl_file :: string
  tbl_line :: nat
  tbl_columns :: "DbColumn list"

text \<open>
  The fields of \<open>ExtensionConfig\<close> that the parser and the generator loop read.
  \<open>getConfig()\<close> reads them from the editor; here the configuration is an argument.
\<close>

record ExtensionConfig =
  includeClasses :: bool
  includeInterfaces :: bool
  includeImports :: bool

text \<open>\<open>xs[n]\<close>, \<open>undefined\<close> (\<open>None\<close>) out of range.\<close>

definition nth_opt :: "'a list \<Rightarrow> nat \<Rightarrow> 'a option" where
  "nth_opt xs n = (if n < length xs then Some (xs ! n) else None)"

text \<open>\<open>x || d\<close> for an optional string: \<open>d\<close> when \<open>x\<close> is \<open>undefined\<close> or empty.\<close>

definition or_else :: "string option \<Rightarrow> string \<Rightarrow> string" where
  "or_else x d = (case x of None \<Rightarrow> d | Some v \<Rightarrow> if v = [] then d else v)"

text \<open>
  \<open>path.relative(root, p)\<close> of Node, for a file that lies under the root (the scanner
  only lists such files): the path below the root. Any other path is returned as it is.
\<close>

definition path_relative :: "string \<Rightarrow> string \<Rightarrow> string" where
  "path_relative root p =
     (if starts_with p (root @ ''/'') then drop (length root + 1) p else p)"

section \<open>The heuristic (Python) extractor: parsePythonFile\<close>

definition tripleQuote :: string where
  "tripleQuote = [CHR 0x22, CHR 0x22, CHR 0x22]"

definition tripleSingleQuote :: string where
  "tripleSingleQuote = [CHR 0x27, CHR 0x27, CHR 0x27]"

text \<open>\<open>/^(\s*)/\<close>\<close>

definition re_indent :: regex where
  "re_indent = seqs [RBol, RGrp 1 (RStar is_space)]"

text \<open>\<open>/^class\s+(\w+)\s*\(([^)]*)\)/\<close>\<close>

definition re_class :: regex where
  "re_class = seqs [RBol, RLit ''class'', RPlus is_space, RGrp 1 (RPlus is_word), RStar is_space,
     RLit ''('', RGrp 2 (RStar (none_of '')'')), RLit '')'']"

text \<open>\<open>/^\s+(\w+)\s*=\s*(?:db\.)?Column\((.+)/\<close>\<close>

definition re_column :: regex where
  "re_column = seqs [RBol, RPlus is_space, RGrp 1 (RPlus is_word), RStar is_space, RLit ''='',
     RStar is_space, ROpt (RLit ''db.''), RLit ''Column'', RLit ''('', RGrp 2 (RPlus is_dot)]"

text \<open>\<open>/\(/g\<close> and \<open>/\)/g\<close>\<close>

definition re_open_paren :: regex where
  "re_open_paren = RLit ''(''"

definition re_close_paren :: regex where
  "re_close_paren = RLit '')''"

text \<open>\<open>/^([^,()]+)/\<close>\<close>

definition re_type :: regex where
  "re_type = seqs [RBol, RGrp 1 (RPlus (none_of '',()''))]"

text \<open>\<open>/^\s+(\w+)\s*:\s*(.+?)\s*(?:=|$)/\<close>\<close>

definition re_attr :: regex where
  "re_attr = seqs [RBol, RPlus is_space, RGrp 1 (RPlus is_word), RStar is_space, RLit '':'',
     RStar is_space, RGrp 2 (RLazyPlus is_dot), RStar is_space, RAlt (RLit ''='') REol]"

text \<open>\<open>/^(\s*)(?:async\s+)?def\s+(\w+)\s*\(([^)]*)\)/\<close>\<close>

definition re_method :: regex where
  "re_method = seqs [RBol, RGrp 1 (RStar is_space), ROpt (seqs [RLit ''async'', RPlus is_space]),
     RLit ''def'', RPlus is_space, RGrp 2 (RPlus is_word), RStar is_space,
     RLit ''('', RGrp 3 (RStar (none_of '')'')), RLit '')'']"

text \<open>\<open>/^(?:async\s+)?def\s+(\w+)\s*\(([^)]*)\)/\<close>\<close>

definition re_func :: regex where
  "re_func = seqs [RBol, ROpt (seqs [RLit ''async'', RPlus is_space]),
     RLit ''def'', RPlus is_space, RGrp 1 (RPlus is_word), RStar is_space,
     RLit ''('', RGrp 2 (RStar (none_of '')'')), RLit '')'']"

text \<open>\<open>/^(?:from\s+(\S+)\s+)?import\s+(.+)/\<close>\<close>

definition re_import :: regex where
  "re_import = seqs [RBol,
     ROpt (seqs [RLit ''from'', RPlus is_space, RGrp 1 (RPlus (\<lambda>c. \<not> is_space c)), RPlus is_space]),
     RLit ''import'', RPlus is_space, RGrp 2 (RPlus is_dot)]"

text \<open>
  The variables of the loop. \<open>currentClass\<close> refers to the object that was pushed on
  \<open>fileIndex.classes\<close>, so here it is the index of that class in \<open>ps_classes\<close>: a push on
  \<open>currentClass.methods\<close> or \<open>currentClass.properties\<close> is an update at that index.
\<close>

record PyState =
  ps_functions :: "FunctionInfo list"
  ps_classes :: "ClassInfo list"
  ps_imports :: "ImportInfo list"
  currentClass :: "nat option"
  currentIndent :: nat
  pendingDocstring :: "string option"
  inDocstring :: bool
  docstringLines :: "string list"

definition initPyState :: PyState where
  "initPyState = \<lparr>ps_functions = [], ps_classes = [], ps_imports = [], currentClass = None,
     currentIndent = 0, pendingDocstring = None, inDocstring = False, docstringLines = []\<rparr>"

definition indentOf :: "string \<Rightarrow> nat" where
  "indentOf ln = (case str_match ln re_indent of None \<Rightarrow> 0
     | Some m \<Rightarrow> (case grp m 1 of None \<Rightarrow> 0 | Some g \<Rightarrow> length g))"

definition hasTripleQuote :: "string \<Rightarrow> bool" where
  "hasTripleQuote ln = (str_includes ln tripleQuote \<or> str_includes ln tripleSingleQuote)"

text \<open>\<open>const quote = line.includes(tripleQuote) ? tripleQuote : tripleSingleQuote\<close>\<close>

definition quoteOf :: "string \<Rightarrow> string" where
  "quoteOf ln = (if str_includes ln tripleQuote then tripleQuote else tripleSingleQuote)"

text \<open>The body of \<open>if (hasTripleQuote) { ... continue; }\<close>.\<close>

definition docstringRule :: "string \<Rightarrow> PyState \<Rightarrow> PyState" where
  "docstringRule ln st =
     (let quote = quoteOf ln;
          quoteCount = length (str_matchAll ln (RLit quote))
      in if inDocstring st then
           (let endContent = or_else (nth_opt (str_split ln quote) 0) [];
                ds = (if str_trim endContent \<noteq> [] then docstringLines st @ [str_trim endContent]
                      else docstringLines st)
            in st\<lparr>pendingDocstring := Some (str_trim (str_join '' '' ds)),
                  inDocstring := False, docstringLines := []\<rparr>)
         else if quoteCount \<ge> 2 then
           st\<lparr>pendingDocstring := Some (str_trim (or_else (nth_opt (str_split ln quote) 1) []))\<rparr>
         else
           (let startContent = or_else (nth_opt (str_split ln quote) 1) []
            in if str_trim startContent \<noteq> []
               then st\<lparr>inDocstring := True, docstringLines := [str_trim startContent]\<rparr>
               else st\<lparr>inDocstring := True\<rparr>))"

text \<open>\<open>if (classMatch) { ... continue; }\<close>\<close>

definition classRule :: "string \<Rightarrow> nat \<Rightarrow> nat \<Rightarrow> PyState \<Rightarrow> PyState option" where
  "classRule ln lineNum indent st =
     (case str_match ln re_class of
        None \<Rightarrow> None
      | Some classMatch \<Rightarrow>
          Some (st\<lparr>ps_classes := ps_classes st @
                     [\<lparr>cls_name = or_else (grp classMatch 1) [], cls_line = lineNum, cls_methods = [],
                       cls_isExported = True, cls_description = pendingDocstring st,
                       cls_properties = []\<rparr>],
                   currentClass := Some (length (ps_classes st)),
                   currentIndent := indent,
                   pendingDocstring := None\<rparr>))"

definition inClassBody :: "nat \<Rightarrow> PyState \<Rightarrow> bool" where
  "inClassBody indent st = (currentClass st \<noteq> None \<and> indent > currentIndent st)"

definition updateCurrent :: "(ClassInfo \<Rightarrow> ClassInfo) \<Rightarrow> PyState \<Rightarrow> PyState" where
  "updateCurrent f st =
     (case currentClass st of
        None \<Rightarrow> st
      | Some k \<Rightarrow> st\<lparr>ps_classes := (ps_classes st)[k := f (ps_classes st ! k)]\<rparr>)"

definition pushProperty :: "string \<Rightarrow> PyState \<Rightarrow> PyState" where
  "pushProperty p st = updateCurrent (\<lambda>c. c\<lparr>cls_properties := cls_properties c @ [p]\<rparr>) st"

definition parenBalance :: "string \<Rightarrow> int" where
  "parenBalance s = int (length (str_matchAll s re_open_paren)) - int (length (str_matchAll s re_close_paren))"

text \<open>
  \<open>while (parenCount > 0 && j < lines.length) { ... i = j; j++; }\<close>: the result is the
  full definition and the value of the outer cursor \<open>i\<close> after the loop.
\<close>

function columnContinuation :: "string list \<Rightarrow> nat \<Rightarrow> int \<Rightarrow> string \<Rightarrow> nat \<Rightarrow> string \<times> nat" where
  "columnContinuation lines j parenCount fullDef i =
     (if parenCount > 0 \<and> j < length lines then
        (let nextLine = str_trim (lines ! j)
         in columnContinuation lines (j + 1) (parenCount + parenBalance nextLine)
              (fullDef @ '' '' @ nextLine) j)
      else (fullDef, i))"
  by pat_completeness auto
termination
  by (relation "measure (\<lambda>(lines, j, parenCount, fullDef, i). length lines - j)") auto

declare columnContinuation.simps [simp del]

text \<open>The column branch, inside \<open>if (currentClass && indent > currentIndent)\<close>.\<close>

definition columnRule :: "string list \<Rightarrow> nat \<Rightarrow> string \<Rightarrow> nat \<Rightarrow> PyState \<Rightarrow> (nat \<times> PyState) option" where
  "columnRule lines i ln indent st =
     (if inClassBody indent st then
        (case str_match ln re_column of
           None \<Rightarrow> None
         | Some columnMatch \<Rightarrow>
             (let colName = or_else (grp columnMatch 1) [];
                  colDef = or_else (grp columnMatch 2) [];
                  (fullDef, i') = columnContinuation lines (i + 1) (parenBalance colDef) colDef i;
                  colType = (case str_match fullDef re_type of
                               None \<Rightarrow> ''Unknown''
                             | Some typeMatch \<Rightarrow> str_trim (or_else (grp typeMatch 1) []))
              in Some (i', pushProperty (colName @ '': '' @ colType) st)))
      else None)"

text \<open>The attribute branch, inside the same \<open>if\<close>.\<close>

definition attrRule :: "string \<Rightarrow> nat \<Rightarrow> PyState \<Rightarrow> PyState option" where
  "attrRule ln indent st =
     (if inClassBody indent st then
        (case str_match ln re_attr of
           None \<Rightarrow> None
         | Some attrMatch \<Rightarrow>
             (if \<not> str_includes ln ''def '' then
                (let attrName = or_else (grp attrMatch 1) [];
                     attrType = str_trim (or_else (nth_opt (str_split (or_else (grp attrMatch 2) []) ''='') 0) [])
                 in Some (pushProperty (attrName @ '': '' @ attrType) st))
              else None))
      else None)"

text \<open>\<open>if (methodMatch && currentClass && indent > currentIndent) { ... continue; }\<close>\<close>

definition methodRule :: "string \<Rightarrow> nat \<Rightarrow> nat \<Rightarrow> PyState \<Rightarrow> PyState option" where
  "methodRule ln lineNum indent st =
     (case str_match ln re_method of
        None \<Rightarrow> None
      | Some methodMatch \<Rightarrow>
          (if inClassBody indent st then
             (let name = or_else (grp methodMatch 2) [];
                  paramsStr = or_else (grp methodMatch 3) [];
                  params = filter (\<lambda>p. p \<noteq> ''self'' \<and> p \<noteq> ''cls'' \<and> p \<noteq> [])
                             (map str_trim (str_split paramsStr '',''));
                  isAsync = str_includes ln ''async def'';
                  m = \<lparr>fn_name = name, fn_params = params, fn_returnType = None, fn_line = lineNum,
                       fn_isAsync = isAsync, fn_isExported = False,
                       fn_description = pendingDocstring st\<rparr>
              in Some ((updateCurrent (\<lambda>c. c\<lparr>cls_methods := cls_methods c @ [m]\<rparr>) st)
                         \<lparr>pendingDocstring := None\<rparr>))
           else None))"

text \<open>\<open>if (funcMatch && indent === 0) { ... continue; }\<close>\<close>

definition functionRule :: "string \<Rightarrow> nat \<Rightarrow> nat \<Rightarrow> PyState \<Rightarrow> PyState option" where
  "functionRule ln lineNum indent st =
     (case str_match ln re_func of
        None \<Rightarrow> None
      | Some funcMatch \<Rightarrow>
          (if indent = 0 then
             (let name = or_else (grp funcMatch 1) [];
                  paramsStr = or_else (grp funcMatch 2) [];
                  params = filter (\<lambda>p. p \<noteq> []) (map str_trim (str_split paramsStr '',''));
                  isAsync = str_includes ln ''async def'';
                  f = \<lparr>fn_name = name, fn_params = params, fn_returnType = None, fn_line = lineNum,
                       fn_isAsync = isAsync, fn_isExported = True,
                       fn_description = pendingDocstring st\<rparr>
              in Some (st\<lparr>ps_functions := ps_functions st @ [f],
                          pendingDocstring := None, currentClass := None\<rparr>))
           else None))"

text \<open>\<open>if (indent === 0 && currentClass && line.trim() !== '') { currentClass = null; }\<close>\<close>

definition resetRule :: "string \<Rightarrow> nat \<Rightarrow> PyState \<Rightarrow> PyState" where
  "resetRule ln indent st =
     (if indent = 0 \<and> currentClass st \<noteq> None \<and> str_trim ln \<noteq> []
      then st\<lparr>currentClass := None\<rparr> else st)"

text \<open>\<open>if (config.includeImports) { ... }\<close>\<close>

definition importRule :: "ExtensionConfig \<Rightarrow> string \<Rightarrow> nat \<Rightarrow> PyState \<Rightarrow> PyState" where
  "importRule cfg ln lineNum st =
     (if includeImports cfg then
        (case str_match ln re_import of
           None \<Rightarrow> st
         | Some importMatch \<Rightarrow>
             (let names = or_else (grp importMatch 2) [];
                  source = or_else (grp importMatch 1)
                             (str_trim (or_else (nth_opt (str_split names '','') 0) []));
                  imports = map (\<lambda>i. str_trim (or_else (nth_opt (str_split (str_trim i) '' as '') 0) []))
                              (str_split names '','')
              in st\<lparr>ps_imports := ps_imports st @
                        [\<lparr>imp_source = source, imp_imports = imports, imp_line = lineNum\<rparr>]\<rparr>))
      else st)"

text \<open>
  One iteration of \<open>for (let i = 0; i < lines.length; i++)\<close>: the result is the value of
  \<open>i\<close> at the end of the body (the column branch moves it) and the new state.
\<close>

definition parseLine :: "ExtensionConfig \<Rightarrow> string list \<Rightarrow> nat \<Rightarrow> PyState \<Rightarrow> nat \<times> PyState" where
  "parseLine cfg lines i st =
     (let ln = lines ! i; lineNum = i + 1; indent = indentOf ln
      in if hasTripleQuote ln then (i, docstringRule ln st)
         else if inDocstring st then (i, st\<lparr>docstringLines := docstringLines st @ [str_trim ln]\<rparr>)
         else (case classRule ln lineNum indent st of
            Some st' \<Rightarrow> (i, st')
          | None \<Rightarrow> (case columnRule lines i ln indent st of
            Some r \<Rightarrow> r
          | None \<Rightarrow> (case attrRule ln indent st of
            Some st' \<Rightarrow> (i, st')
          | None \<Rightarrow> (case methodRule ln lineNum indent st of
            Some st' \<Rightarrow> (i, st')
          | None \<Rightarrow> (case functionRule ln lineNum indent st of
            Some st' \<Rightarrow> (i, st')
          | None \<Rightarrow> (i, importRule cfg ln lineNum (resetRule ln indent st))))))))"

function parsePythonLoop :: "ExtensionConfig \<Rightarrow> string list \<Rightarrow> nat \<Rightarrow> PyState \<Rightarrow> PyState" where
  "parsePythonLoop cfg lines i st =
     (if i < length lines then
        (case parseLine cfg lines i st of (i', st') \<Rightarrow> parsePythonLoop cfg lines (Suc i') st')
      else st)"
  by pat_completeness auto
termination parsePythonLoop
proof (relation "measure (\<lambda>(cfg, lines, i, st). length lines - i)")
  show "wf (measure (\<lambda>(cfg :: ExtensionConfig, lines :: string list, i :: nat, st :: PyState).
    length lines - i))"
    by simp
next
  fix cfg :: ExtensionConfig and lines :: "string list" and i :: nat and st :: PyState
    and x :: "nat \<times> PyState" and i' :: nat and st' :: PyState
  assume a: "i < length lines" and b: "(i', st') = parseLine cfg lines i st"
  have cont: "k < j \<Longrightarrow> k \<le> snd (columnContinuation lines j pc fd k)" for j pc fd k
  proof (induction lines j pc fd k rule: columnContinuation.induct)
    case (1 lines j parenCount fullDef i)
    show ?case
    proof (cases "parenCount > 0 \<and> j < length lines")
      case True
      with 1 have "j \<le> snd (columnContinuation lines (j + 1)
          (parenCount + parenBalance (str_trim (lines ! j)))
          (fullDef @ '' '' @ str_trim (lines ! j)) j)"
        by simp
      with True 1 show ?thesis
        by (subst columnContinuation.simps) (simp add: Let_def)
    next
      case False
      then show ?thesis
        by (subst columnContinuation.simps) auto
    qed
  qed
  have next_cursor: "columnContinuation lines (Suc i) pc fd i = (fd', k) \<Longrightarrow> i \<le> k"
    for pc fd fd' k
    using cont[of i "Suc i" pc fd] by simp
  have col: "columnRule lines i (lines ! i) (indentOf (lines ! i)) st = Some r \<Longrightarrow> i \<le> fst r" for r
    by (auto simp: columnRule_def Let_def split: if_splits option.splits prod.splits
        dest: next_cursor)
  have "i \<le> fst (parseLine cfg lines i st)"
    unfolding parseLine_def Let_def
    by (simp split: option.split add: col)
  with b have "i \<le> i'"
    by (metis fst_conv)
  with a show "((cfg, lines, Suc i', st'), (cfg, lines, i, st))
      \<in> measure (\<lambda>(cfg, lines, i, st). length lines - i)"
    by simp
qed

declare parsePythonLoop.simps [simp del]

definition parsePythonFile :: "ExtensionConfig \<Rightarrow> string \<Rightarrow> string \<Rightarrow> string \<Rightarrow> FileIndex" where
  "parsePythonFile cfg filePath content workspaceRoot =
     (let lines = str_split content [CHR 0x0A];
          st = parsePythonLoop cfg lines 0 initPyState
      in \<lparr>fi_path = filePath, fi_relativePath = path_relative workspaceRoot filePath,
          fi_functions = ps_functions st, fi_classes = ps_classes st, fi_interfaces = [],
          fi_imports = ps_imports st, fi_language = python\<rparr>)"

section \<open>Dispatch on the file type: parseFile\<close>

text \<open>
  What the code can throw. \<open>TypeError\<close> is the error of a method call on \<open>undefined\<close>;
  \<open>External\<close> is an error raised inside a library that is not part of the repository.
\<close>

datatype error = UnsupportedFileType string | TypeError | External string

text \<open>
  \<open>path.extname\<close> of Node: the text from the last dot of the last path segment on,
  empty when that segment has no dot or only a leading one.
\<close>

definition path_basename :: "string \<Rightarrow> string" where
  "path_basename p = rev (takeWhile (\<lambda>c. c \<noteq> CHR ''/'') (rev p))"

definition path_extname :: "string \<Rightarrow> string" where
  "path_extname p =
     (let b = path_basename p; e = takeWhile (\<lambda>c. c \<noteq> CHR ''.'') (rev b)
      in if length e = length b \<or> length e + 1 = length b \<or> b = ''..'' then []
         else CHR ''.'' # rev e)"

text \<open>
  \<open>parseTypeScriptFile\<close> walks the syntax tree built by the TypeScript compiler, which is
  not part of the repository: it is the argument \<open>tsParser\<close>, free to fail.
\<close>

type_synonym ts_parser = "string \<Rightarrow> string \<Rightarrow> string \<Rightarrow> language \<Rightarrow> error + FileIndex"

definition parseFile :: "ExtensionConfig \<Rightarrow> ts_parser \<Rightarrow> string \<Rightarrow> string \<Rightarrow> string \<Rightarrow> error + FileIndex" where
  "parseFile cfg tsParser filePath content workspaceRoot =
     (let ext = path_extname filePath
      in if ext = ''.ts'' \<or> ext = ''.tsx'' then tsParser filePath content workspaceRoot typescript
         else if ext = ''.js'' \<or> ext = ''.jsx'' then tsParser filePath content workspaceRoot javascript
         else if ext = ''.py'' then Inr (parsePythonFile cfg filePath content workspaceRoot)
         else Inl (UnsupportedFileType ext))"

section \<open>Route extraction (src/indexer/generator.ts)\<close>

definition quoteChars :: string where
  "quoteChars = [CHR 0x27, CHR 0x22]"

text \<open>\<open>/@\w+\.route\s*\(\s*['"]([^'"]+)['"]/\<close>\<close>

definition re_route :: regex where
  "re_route = seqs [RLit ''@'', RPlus is_word, RLit ''.route'', RStar is_space, RLit ''('',
     RStar is_space, RCls (one_of quoteChars), RGrp 1 (RPlus (none_of quoteChars)),
     RCls (one_of quoteChars)]"

text \<open>\<open>/methods\s*=\s*\[([^\]]+)\]/\<close>\<close>

definition re_methods :: regex where
  "re_methods = seqs [RLit ''methods'', RStar is_space, RLit ''='', RStar is_space, RLit ''['',
     RGrp 1 (RPlus (none_of '']'')), RLit '']'']"

text \<open>\<open>/['"]([A-Z]+)['"]/g\<close> and \<open>/['"]/g\<close>\<close>

definition re_verb :: regex where
  "re_verb = seqs [RCls (one_of quoteChars), RGrp 1 (RPlus is_upper), RCls (one_of quoteChars)]"

definition re_quote :: regex where
  "re_quote = RCls (one_of quoteChars)"

text \<open>\<open>methodsStr.match(/['"]([A-Z]+)['"]/g)?.map(m => m.replace(/['"]/g, ''))\<close>\<close>

definition verbsOf :: "string \<Rightarrow> string list" where
  "verbsOf methodsStr =
     map (\<lambda>m. str_replaceAll (m_text m) re_quote (\<lambda>_. [])) (str_matchAll methodsStr re_verb)"

text \<open>
  The body of the scan loop of \<open>extractFlaskRoutes\<close> for one line: the pair is
  \<open>(routePath, routeMethods)\<close>.
\<close>

definition flaskScanLine :: "string \<Rightarrow> string \<times> string list \<Rightarrow> string \<times> string list" where
  "flaskScanLine ln acc =
     (let routePath = (case str_match ln re_route of
                         None \<Rightarrow> fst acc
                       | Some routeMatch \<Rightarrow> or_else (grp routeMatch 1) []);
          routeMethods = (case str_match ln re_methods of
                            None \<Rightarrow> snd acc
                          | Some methodMatch \<Rightarrow> verbsOf (or_else (grp methodMatch 1) []))
      in (routePath, routeMethods))"

text \<open>
  \<open>for (let i = Math.max(0, func.line - 10); i < func.line; i++) { if (i >= lines.length)
  { break; } ... }\<close>: the indices visited, in order. Subtraction on \<open>nat\<close> stops at 0.
\<close>

definition flaskWindow :: "string list \<Rightarrow> nat \<Rightarrow> nat list" where
  "flaskWindow lines funcLine = takeWhile (\<lambda>i. i < length lines) [funcLine - 10 ..< funcLine]"

definition flaskScan :: "string list \<Rightarrow> nat \<Rightarrow> string \<times> string list" where
  "flaskScan lines funcLine =
     foldl (\<lambda>acc i. flaskScanLine (lines ! i) acc) ([], []) (flaskWindow lines funcLine)"

definition flaskEndpoints :: "FileIndex \<Rightarrow> string \<Rightarrow> string list \<Rightarrow> FunctionInfo \<Rightarrow> ApiEndpoint list" where
  "flaskEndpoints fileIndex content lines func =
     (let (routePath, routeMethods) = flaskScan lines (fn_line func)
      in if routePath \<noteq> [] then
           (let methods = (if length routeMethods > 0 then routeMethods else [''GET''])
            in map (\<lambda>method.
                 \<lparr>ep_method = method, ep_path = routePath, ep_handler = fn_name func,
                  ep_file = fi_relativePath fileIndex, ep_line = fn_line func,
                  ep_auth = (str_includes content ''@jwt_required'' \<or>
                             str_includes content ''@login_required'')\<rparr>) methods)
         else [])"

text \<open>Each extractor returns the endpoints it pushes, in the order of the pushes.\<close>

definition extractFlaskRoutes :: "FileIndex \<Rightarrow> string \<Rightarrow> ApiEndpoint list" where
  "extractFlaskRoutes fileIndex content =
     (let lines = str_split content [CHR 0x0A]
      in concat (map (flaskEndpoints fileIndex content lines) (fi_functions fileIndex)))"

text \<open>\<open>/@api_view\(\[([^\]]+)\]\)\s*def\s+(\w+)/g\<close>\<close>

definition re_api_view :: regex where
  "re_api_view = seqs [RLit ''@api_view'', RLit ''('', RLit ''['', RGrp 1 (RPlus (none_of '']'')),
     RLit '']'', RLit '')'', RStar is_space, RLit ''def'', RPlus is_space, RGrp 2 (RPlus is_word)]"

text \<open>\<open>/class\s+(\w+)\(.*?View\)/g\<close>\<close>

definition re_cbv :: regex where
  "re_cbv = seqs [RLit ''class'', RPlus is_space, RGrp 1 (RPlus is_word), RLit ''('',
     RLazyStar is_dot, RLit ''View'', RLit '')'']"

definition djangoApiView :: "FileIndex \<Rightarrow> string \<Rightarrow> rmatch_result \<Rightarrow> ApiEndpoint list" where
  "djangoApiView fileIndex content m =
     (let methodsStr = or_else (grp m 1) [];
          funcName = or_else (grp m 2) [];
          methods = (if str_matchAll methodsStr re_verb = [] then [''GET''] else verbsOf methodsStr)
      in case find (\<lambda>f. fn_name f = funcName) (fi_functions fileIndex) of
           None \<Rightarrow> []
         | Some func \<Rightarrow>
             map (\<lambda>method.
               \<lparr>ep_method = method,
                ep_path = ''/api/'' @ str_replaceAll funcName (RLit ''_'') (\<lambda>_. ''-''),
                ep_handler = funcName, ep_file = fi_relativePath fileIndex, ep_line = fn_line func,
                ep_auth = (str_includes content ''@permission_classes'' \<or>
                           str_includes content ''IsAuthenticated'')\<rparr>) methods)"

definition djangoClassView :: "FileIndex \<Rightarrow> string \<Rightarrow> rmatch_result \<Rightarrow> ApiEndpoint list" where
  "djangoClassView fileIndex content m =
     (let className = or_else (grp m 1) []
      in case find (\<lambda>c. cls_name c = className) (fi_classes fileIndex) of
           None \<Rightarrow> []
         | Some cls \<Rightarrow>
             map (\<lambda>method.
               \<lparr>ep_method = toUpperCase method,
                ep_path = ''/api/'' @ replace_first ''view'' [] (toLowerCase className),
                ep_handler = className @ ''.'' @ method,
                ep_file = fi_relativePath fileIndex, ep_line = cls_line cls,
                ep_auth = (str_includes content ''LoginRequiredMixin'' \<or>
                           str_includes content ''PermissionRequiredMixin'')\<rparr>)
               (filter (\<lambda>method. list_ex (\<lambda>f. fn_name f = method) (cls_methods cls))
                  [''get'', ''post'', ''put'', ''patch'', ''delete'']))"

definition extractDjangoRoutes :: "FileIndex \<Rightarrow> string \<Rightarrow> ApiEndpoint list" where
  "extractDjangoRoutes fileIndex content =
     concat (map (djangoApiView fileIndex content) (str_matchAll content re_api_view)) @
     concat (map (djangoClassView fileIndex content) (str_matchAll content re_cbv))"

text \<open>\<open>content.substring(0, startPos).split('\n').length\<close>\<close>

definition lineOfOffset :: "string \<Rightarrow> nat \<Rightarrow> nat" where
  "lineOfOffset content startPos =
     length (str_split (str_substring content 0 (int startPos)) [CHR 0x0A])"

text \<open>\<open>/(?:app|router)\.VERB\s*\(\s*['"]([^'"]+)['"]/g\<close>, for the five verbs\<close>

definition re_express :: "string \<Rightarrow> regex" where
  "re_express verb = seqs [RAlt (RLit ''app'') (RLit ''router''), RLit ''.'', RLit verb,
     RStar is_space, RLit ''('', RStar is_space, RCls (one_of quoteChars),
     RGrp 1 (RPlus (none_of quoteChars)), RCls (one_of quoteChars)]"

definition extractExpressRoutes :: "FileIndex \<Rightarrow> string \<Rightarrow> ApiEndpoint list" where
  "extractExpressRoutes fileIndex content =
     concat (map (\<lambda>(verb, method).
        map (\<lambda>m. \<lparr>ep_method = method, ep_path = or_else (grp m 1) [], ep_handler = ''handler'',
                    ep_file = fi_relativePath fileIndex,
                    ep_line = lineOfOffset content (m_index m),
                    ep_auth = (str_includes content ''authenticate'' \<or>
                               str_includes content ''authMiddleware'')\<rparr>)
            (str_matchAll content (re_express verb)))
        [(''get'', ''GET''), (''post'', ''POST''), (''put'', ''PUT''), (''delete'', ''DELETE''),
         (''patch'', ''PATCH'')])"

text \<open>\<open>/@Controller\s*\(\s*['"]([^'"]*)['"]/\<close> and \<open>/@Verb\s*\(\s*['"]([^'"]*)['"]/g\<close>\<close>

definition re_decorator :: "string \<Rightarrow> regex" where
  "re_decorator d = seqs [RLit ''@'', RLit d, RStar is_space, RLit ''('', RStar is_space,
     RCls (one_of quoteChars), RGrp 1 (RStar (none_of quoteChars)), RCls (one_of quoteChars)]"

text \<open>\<open>/async\s+(\w+)\s*\(|\s+(\w+)\s*\(/\<close>\<close>

definition re_nest_handler :: regex where
  "re_nest_handler = RAlt
     (seqs [RLit ''async'', RPlus is_space, RGrp 1 (RPlus is_word), RStar is_space, RLit ''(''])
     (seqs [RPlus is_space, RGrp 2 (RPlus is_word), RStar is_space, RLit ''(''])"

definition extractNestJSRoutes :: "FileIndex \<Rightarrow> string \<Rightarrow> ApiEndpoint list" where
  "extractNestJSRoutes fileIndex content =
     (let basePath = (case str_match content (re_decorator ''Controller'') of
                        None \<Rightarrow> []
                      | Some controllerMatch \<Rightarrow> ''/'' @ or_else (grp controllerMatch 1) [])
      in concat (map (\<lambda>(d, method).
           map (\<lambda>m.
             (let routePath = or_else (grp m 1) [];
                  fullPath = basePath @ (if routePath \<noteq> [] then ''/'' @ routePath else []);
                  startPos = m_index m;
                  handlerName =
                    (case str_match (drop startPos content) re_nest_handler of
                       None \<Rightarrow> ''handler''
                     | Some methodMatch \<Rightarrow> or_else (grp methodMatch 1) (or_else (grp methodMatch 2) []))
              in \<lparr>ep_method = method, ep_path = fullPath, ep_handler = handlerName,
                  ep_file = fi_relativePath fileIndex, ep_line = lineOfOffset content startPos,
                  ep_auth = (str_includes content ''@UseGuards'' \<or>
                             str_includes content ''AuthGuard'')\<rparr>))
             (str_matchAll content (re_decorator d)))
           [(''Get'', ''GET''), (''Post'', ''POST''), (''Put'', ''PUT''), (''Delete'', ''DELETE''),
            (''Patch'', ''PATCH'')]))"

text \<open>\<open>/\/(?:pages|app)\/api\/(.+)\.(?:ts|js|tsx|jsx)$/\<close>\<close>

definition re_api_file :: regex where
  "re_api_file = seqs [RLit ''/'', RAlt (RLit ''pages'') (RLit ''app''), RLit ''/api/'',
     RGrp 1 (RPlus is_dot), RLit ''.'',
     RAlt (RLit ''ts'') (RAlt (RLit ''js'') (RAlt (RLit ''tsx'') (RLit ''jsx''))), REol]"

text \<open>\<open>/\\/g\<close> and \<open>/\[([^\]]+)\]/g\<close>\<close>

definition re_backslash :: regex where
  "re_backslash = RLit [CHR 0x5C]"

definition re_bracket :: regex where
  "re_bracket = seqs [RLit ''['', RGrp 1 (RPlus (none_of '']'')), RLit '']'']"

definition nextRoutePath :: "string \<Rightarrow> string" where
  "nextRoutePath seg =
     ''/api/'' @ str_replaceAll (str_replaceAll seg re_backslash (\<lambda>_. ''/'')) re_bracket
                   (\<lambda>m. '':'' @ or_else (grp m 1) [])"

definition extractNextJSRoutes :: "string \<Rightarrow> FileIndex \<Rightarrow> string \<Rightarrow> ApiEndpoint list" where
  "extractNextJSRoutes filePath fileIndex content =
     (let isApiRoute = (str_includes filePath ''/pages/api/'' \<or> str_includes filePath ''/app/api/'')
      in if isApiRoute then
           (case str_match filePath re_api_file of
              None \<Rightarrow> []
            | Some apiMatch \<Rightarrow>
                (let routePath = nextRoutePath (or_else (grp apiMatch 1) [])
                 in map (\<lambda>method.
                      \<lparr>ep_method = method, ep_path = routePath, ep_handler = toLowerCase method,
                       ep_file = fi_relativePath fileIndex, ep_line = 1,
                       ep_auth = (str_includes content ''getServerSession'' \<or>
                                  str_includes content ''auth'')\<rparr>)
                    (filter (\<lambda>method.
                        str_includes content (''export async function '' @ method) \<or>
                        str_includes content (''export function '' @ method) \<or>
                        (method = ''GET'' \<and> str_includes content ''export default''))
                      [''GET'', ''POST'', ''PUT'', ''DELETE'', ''PATCH''])))
         else [])"

section \<open>Schema extraction (src/indexer/generator.ts)\<close>

text \<open>
  \<open>new RegExp(`${name}\\s*=\\s*(?:db\\.)?Column\\([^)]+\\)`, 's')\<close>. The name is put into
  the pattern as it is; a property name made by \<open>parsePythonFile\<close> is a match of \<open>\w+\<close>
  and stands for itself there, so the name is a literal of the expression.
\<close>

definition re_columnDef :: "string \<Rightarrow> regex" where
  "re_columnDef name = seqs [RLit name, RStar is_space, RLit ''='', RStar is_space,
     ROpt (RLit ''db.''), RLit ''Column'', RLit ''('', RPlus (none_of '')''), RLit '')'']"

text \<open>\<open>/ForeignKey\(['"]([\w.]+)['"]/\<close>\<close>

definition re_foreignKey :: regex where
  "re_foreignKey = seqs [RLit ''ForeignKey'', RLit ''('', RCls (one_of quoteChars),
     RGrp 1 (RPlus is_word_or_dot), RCls (one_of quoteChars)]"

text \<open>\<open>fullDef.match(/ForeignKey\(['"]([\w.]+)['"]/)?.[1]\<close>\<close>

definition foreignOf :: "string \<Rightarrow> string option" where
  "foreignOf s = (case str_match s re_foreignKey of None \<Rightarrow> None | Some m \<Rightarrow> grp m 1)"

text \<open>
  The callback of \<open>cls.properties.map\<close> in \<open>extractSQLAlchemySchema\<close>. A property without
  a colon leaves \<open>typeInfo\<close> undefined, and \<open>typeInfo.split\<close> throws.
\<close>

definition sqlColumn :: "string \<Rightarrow> string \<Rightarrow> error + DbColumn" where
  "sqlColumn content prop =
     (let parts = map str_trim (str_split prop '':'');
          name = or_else (nth_opt parts 0) []
      in case nth_opt parts 1 of
           None \<Rightarrow> Inl TypeError
         | Some typeInfo \<Rightarrow>
             (let fullDef = (case str_match content (re_columnDef name) of
                               None \<Rightarrow> typeInfo
                             | Some colDefMatch \<Rightarrow> m_text colDefMatch)
              in Inr \<lparr>col_name = name,
                      col_type = replace_first ''db.'' []
                                   (or_else (nth_opt (str_split typeInfo ''('') 0) []),
                      col_nullable = (\<not> str_includes fullDef ''nullable=False''),
                      col_primary = str_includes fullDef ''primary_key=True'',
                      col_foreign = foreignOf fullDef\<rparr>))"

text \<open>\<open>xs.map(f)\<close> for a callback that may throw: the first error ends the map.\<close>

fun mapE :: "('a \<Rightarrow> error + 'b) \<Rightarrow> 'a list \<Rightarrow> error + 'b list" where
  "mapE f [] = Inr []"
| "mapE f (x # xs) =
     (case f x of
        Inl e \<Rightarrow> Inl e
      | Inr y \<Rightarrow> (case mapE f xs of Inl e \<Rightarrow> Inl e | Inr ys \<Rightarrow> Inr (y # ys)))"

text \<open>
  \<open>classes.forEach(cls => { ... tables.push(t) ... })\<close> for a callback that pushes at
  most one table and may throw: the result is the table list after the loop, and the
  error that ended it, if any. Tables pushed before the error stay in the list.
\<close>

fun forEachClass :: "(ClassInfo \<Rightarrow> error + DbTable option) \<Rightarrow> ClassInfo list \<Rightarrow> DbTable list
    \<Rightarrow> DbTable list \<times> error option" where
  "forEachClass f [] tables = (tables, None)"
| "forEachClass f (cls # rest) tables =
     (case f cls of
        Inl e \<Rightarrow> (tables, Some e)
      | Inr None \<Rightarrow> forEachClass f rest tables
      | Inr (Some t) \<Rightarrow> forEachClass f rest (tables @ [t]))"

definition sqlTable :: "FileIndex \<Rightarrow> string \<Rightarrow> ClassInfo \<Rightarrow> error + DbTable option" where
  "sqlTable fileIndex content cls =
     (if length (cls_properties cls) > 0 then
        (case mapE (sqlColumn content) (cls_properties cls) of
           Inl e \<Rightarrow> Inl e
         | Inr columns \<Rightarrow>
             Inr (Some \<lparr>tbl_name = cls_name cls, tbl_file = fi_relativePath fileIndex,
                        tbl_line = cls_line cls, tbl_columns = columns\<rparr>))
      else Inr None)"

definition extractSQLAlchemySchema :: "FileIndex \<Rightarrow> string \<Rightarrow> DbTable list \<Rightarrow> DbTable list \<times> error option" where
  "extractSQLAlchemySchema fileIndex content tables =
     (if \<not> str_includes content ''db.Model'' \<and> \<not> str_includes content ''Base'' then (tables, None)
      else forEachClass (sqlTable fileIndex content) (fi_classes fileIndex) tables)"

text \<open>\<open>/(\w+)\s*=\s*models\.(\w+Field)\(([^)]*)\)/g\<close>\<close>

definition re_modelField :: regex where
  "re_modelField = seqs [RGrp 1 (RPlus is_word), RStar is_space, RLit ''='', RStar is_space,
     RLit ''models.'', RGrp 2 (seqs [RPlus is_word, RLit ''Field'']), RLit ''('',
     RGrp 3 (RStar (none_of '')'')), RLit '')'']"

definition djangoColumn :: "rmatch_result \<Rightarrow> DbColumn" where
  "djangoColumn m =
     (let params = or_else (grp m 3) []
      in \<lparr>col_name = or_else (grp m 1) [], col_type = or_else (grp m 2) [],
          col_nullable = str_includes params ''null=True'',
          col_primary = str_includes params ''primary_key=True'',
          col_foreign = foreignOf params\<rparr>)"

text \<open>
  \<open>content.substring(content.indexOf(`class ${cls.name}`), content.indexOf('\nclass ',
  content.indexOf(`class ${cls.name}`) + 1))\<close>
\<close>

definition djangoClassContent :: "string \<Rightarrow> ClassInfo \<Rightarrow> string" where
  "djangoClassContent content cls =
     (let start = str_indexOf content (''class '' @ cls_name cls) 0
      in str_substring content start (str_indexOf content (CHR 0x0A # ''class '') (start + 1)))"

definition djangoTable :: "FileIndex \<Rightarrow> string \<Rightarrow> ClassInfo \<Rightarrow> DbTable list" where
  "djangoTable fileIndex content cls =
     (let columns = map djangoColumn (str_matchAll (djangoClassContent content cls) re_modelField)
      in if length columns > 0 then
           [\<lparr>tbl_name = cls_name cls, tbl_file = fi_relativePath fileIndex,
             tbl_line = cls_line cls, tbl_columns = columns\<rparr>]
         else [])"

text \<open>The tables \<open>extractDjangoModels\<close> pushes, in the order of the pushes.\<close>

definition extractDjangoModels :: "FileIndex \<Rightarrow> string \<Rightarrow> DbTable list" where
  "extractDjangoModels fileIndex content =
     (if \<not> str_includes content ''models.Model'' then []
      else concat (map (djangoTable fileIndex content) (fi_classes fileIndex)))"

text \<open>
  \<open>extractTypeORMSchema\<close> builds \<open>new RegExp(`@(?:Primary)?Column[^\n]*\n\s*${name}`, 's')\<close>
  from the name of a TypeScript property, which can be any text; the pattern may be
  ill-formed, and then the constructor throws. The engine for such a pattern is the
  argument \<open>dynRegExp\<close>: from the pattern source and the subject to the matched text,
  \<open>None\<close> for no match, or an error. In the template literal \<open>\n\<close> is a line feed and
  \<open>\s\<close> is the letter s.
\<close>

type_synonym dyn_regexp = "string \<Rightarrow> string \<Rightarrow> error + string option"

text \<open>\<open>/@ManyToOne.*?=>\s*(\w+)/\<close>\<close>

definition re_manyToOne :: regex where
  "re_manyToOne = seqs [RLit ''@ManyToOne'', RLazyStar is_dot, RLit ''=>'', RStar is_space,
     RGrp 1 (RPlus is_word)]"

definition typeormColumn :: "dyn_regexp \<Rightarrow> string \<Rightarrow> string \<Rightarrow> error + DbColumn" where
  "typeormColumn dynRegExp classContent prop =
     (let parts = map str_trim (str_split prop '':'');
          name = or_else (nth_opt parts 0) []
      in case dynRegExp (''@(?:Primary)?Column[^'' @ [CHR 0x0A] @ '']*'' @ [CHR 0x0A] @ ''s*'' @ name)
                classContent of
           Inl e \<Rightarrow> Inl e
         | Inr propMatch \<Rightarrow>
             (let decorators = (case propMatch of None \<Rightarrow> [] | Some t \<Rightarrow> t)
              in Inr \<lparr>col_name = name, col_type = or_else (nth_opt parts 1) ''unknown'',
                      col_nullable = str_includes decorators ''nullable: true'',
                      col_primary = (str_includes decorators ''@PrimaryColumn'' \<or>
                                     str_includes decorators ''primary: true''),
                      col_foreign = (case str_match decorators re_manyToOne of
                                       None \<Rightarrow> None | Some m \<Rightarrow> grp m 1)\<rparr>))"

definition typeormTable :: "dyn_regexp \<Rightarrow> FileIndex \<Rightarrow> string \<Rightarrow> ClassInfo \<Rightarrow> error + DbTable option" where
  "typeormTable dynRegExp fileIndex content cls =
     (if length (cls_properties cls) > 0 then
        (let start = str_indexOf content (''class '' @ cls_name cls) 0;
             classContent = str_substring content start
                              (str_indexOf content (CHR 0x0A # ''}'') start)
         in case mapE (typeormColumn dynRegExp classContent) (cls_properties cls) of
              Inl e \<Rightarrow> Inl e
            | Inr columns \<Rightarrow>
                Inr (Some \<lparr>tbl_name = cls_name cls, tbl_file = fi_relativePath fileIndex,
                           tbl_line = cls_line cls, tbl_columns = columns\<rparr>))
      else Inr None)"

definition extractTypeORMSchema :: "dyn_regexp \<Rightarrow> FileIndex \<Rightarrow> string \<Rightarrow> DbTable list \<Rightarrow> DbTable list \<times> error option" where
  "extractTypeORMSchema dynRegExp fileIndex content tables =
     (if \<not> str_includes content ''@Entity'' then (tables, None)
      else forEachClass (typeormTable dynRegExp fileIndex content) (fi_classes fileIndex) tables)"

text \<open>\<open>extractPrismaSchema\<close> looks for \<open>PrismaClient\<close> and pushes nothing.\<close>

definition extractPrismaSchema :: "FileIndex \<Rightarrow> string \<Rightarrow> DbTable list" where
  "extractPrismaSchema fileIndex content = (if str_includes content ''PrismaClient'' then [] else [])"

section \<open>The per-file loop of generateIndex\<close>

text \<open>
  The accumulators of the loop: the counts and the file list of \<open>projectIndex\<close>, the set
  \<open>detectedTechs\<close> (a list without repetitions, in the order of insertion), and the two
  arrays \<open>apiEndpoints\<close> and \<open>dbTables\<close>.
\<close>

record GenState =
  gs_files :: "FileIndex list"
  fileCount :: nat
  functionCount :: nat
  classCount :: nat
  detectedTechs :: "string list"
  apiEndpoints :: "ApiEndpoint list"
  dbTables :: "DbTable list"

definition initGenState :: GenState where
  "initGenState = \<lparr>gs_files = [], fileCount = 0, functionCount = 0, classCount = 0,
     detectedTechs = [], apiEndpoints = [], dbTables = []\<rparr>"

text \<open>
  What the loop takes from outside the repository: the file system behind
  \<open>readFileContent\<close> (\<open>None\<close> when the read throws), the TypeScript parser and the
  engine for patterns built at run time.
\<close>

record Env =
  readFileContent :: "string \<Rightarrow> string option"
  tsParser :: ts_parser
  dynRegExp :: dyn_regexp

text \<open>The chain of \<open>if (source.includes(marker)) { detectedTechs.add(label); }\<close>.\<close>

definition techCatalog :: "(string list \<times> string) list" where
  "techCatalog =
     [([''flask''], ''Flask''), ([''express''], ''Express''), ([''fastapi''], ''FastAPI''),
      ([''django''], ''Django''), ([''@nestjs''], ''NestJS''), ([''koa''], ''Koa''),
      ([''react''], ''React''), ([''next''], ''Next.js''), ([''vue''], ''Vue''),
      ([''@angular''], ''Angular''), ([''svelte''], ''Svelte''), ([''solid-js''], ''Solid.js''),
      ([''sqlalchemy''], ''SQLAlchemy''), ([''mongoose''], ''Mongoose''), ([''prisma''], ''Prisma''),
      ([''typeorm''], ''TypeORM''), ([''sequelize''], ''Sequelize''), ([''drizzle''], ''Drizzle ORM''),
      ([''graphql'', ''apollo''], ''GraphQL''), ([''jwt'', ''jsonwebtoken''], ''JWT Auth''),
      ([''bcrypt''], ''Bcrypt''), ([''redis''], ''Redis'')]"

definition setAdd :: "string \<Rightarrow> string list \<Rightarrow> string list" where
  "setAdd x xs = (if x \<in> set xs then xs else xs @ [x])"

definition detectTech :: "string list \<Rightarrow> ImportInfo \<Rightarrow> string list" where
  "detectTech techs imp =
     (let source = toLowerCase (imp_source imp)
      in foldl (\<lambda>ts (markers, label). if list_ex (str_includes source) markers then setAdd label ts else ts)
           techs techCatalog)"

text \<open>
  The body of \<open>for (const file of files) { try { ... } catch (error) { console.error(...) } }\<close>.
  An error thrown by the read or by \<open>parseFile\<close> is caught before anything is pushed; an
  error thrown by a schema extractor is caught after the pushes made so far.
\<close>

definition processFile :: "Env \<Rightarrow> ExtensionConfig \<Rightarrow> string \<Rightarrow> GenState \<Rightarrow> string \<Rightarrow> GenState" where
  "processFile env cfg workspaceRoot st file =
     (case readFileContent env file of
        None \<Rightarrow> st
      | Some content \<Rightarrow>
          (case parseFile cfg (tsParser env) file content workspaceRoot of
             Inl e \<Rightarrow> st
           | Inr fileIndex \<Rightarrow>
               (let st1 = st\<lparr>gs_files := gs_files st @ [fileIndex],
                              fileCount := fileCount st + 1,
                              functionCount := functionCount st + length (fi_functions fileIndex),
                              classCount := classCount st + length (fi_classes fileIndex)\<rparr>;
                    st2 = st1\<lparr>detectedTechs := foldl detectTech (detectedTechs st1) (fi_imports fileIndex)\<rparr>;
                    st3 = st2\<lparr>apiEndpoints := apiEndpoints st2 @
                            (if fi_language fileIndex = python
                             then extractFlaskRoutes fileIndex content @ extractDjangoRoutes fileIndex content
                             else extractExpressRoutes fileIndex content @
                                  extractNestJSRoutes fileIndex content @
                                  extractNextJSRoutes file fileIndex content)\<rparr>
                in if fi_language fileIndex = python then
                     (case extractSQLAlchemySchema fileIndex content (dbTables st3) of
                        (tables, Some e) \<Rightarrow> st3\<lparr>dbTables := tables\<rparr>
                      | (tables, None) \<Rightarrow> st3\<lparr>dbTables := tables @ extractDjangoModels fileIndex content\<rparr>)
                   else
                     (case extractTypeORMSchema (dynRegExp env) fileIndex content (dbTables st3) of
                        (tables, Some e) \<Rightarrow> st3\<lparr>dbTables := tables\<rparr>
                      | (tables, None) \<Rightarrow> st3\<lparr>dbTables := tables @ extractPrismaSchema fileIndex content\<rparr>))))"

definition generateIndexLoop :: "Env \<Rightarrow> ExtensionConfig \<Rightarrow> string \<Rightarrow> string list \<Rightarrow> GenState" where
  "generateIndexLoop env cfg workspaceRoot files =
     foldl (processFile env cfg workspaceRoot) initGenState files"

section \<open>Example inputs\<close>

definition allOnConfig :: ExtensionConfig where
  "allOnConfig = \<lparr>includeClasses = True, includeInterfaces = True, includeImports = True\<rparr>"

text \<open>An App Router handler file, and a Pages Router one.\<close>

definition getHandlerSource :: string where
  "getHandlerSource = ''export async function GET(request) { return Response.json([]) }''"

definition defaultHandlerSource :: string where
  "defaultHandlerSource = ''export default function handler(req, res) { res.json([]) }''"

text \<open>
  A view whose route decorator is on line 1 and whose \<open>def\<close> is on line 11, and the
  same view with the \<open>def\<close> on line 10.
\<close>

definition decoratorTenAbove :: string where
  "decoratorTenAbove = ''@app.route('/far')\<newline>#\<newline>#\<newline>#\<newline>#\<newline>#\<newline>#\<newline>#\<newline>#\<newline>#\<newline>def far_view():\<newline>    pass''"

definition decoratorNineAbove :: string where
  "decoratorNineAbove = ''@app.route('/far')\<newline>#\<newline>#\<newline>#\<newline>#\<newline>#\<newline>#\<newline>#\<newline>#\<newline>def far_view():\<newline>    pass''"

text \<open>A column call that goes on over a second line.\<close>

definition multiLineColumn :: string where
  "multiLineColumn = ''class T(Base):\<newline>    ts = Column(DateTime, default=\<newline>        lambda: now())''"

text \<open>A class that is both a declarative model and a Django model.\<close>

definition dualOrmModel :: string where
  "dualOrmModel = ''class User(Base, models.Model):\<newline>    id = Column(Integer, primary_key=True)\<newline>    name = models.CharField(max_length=5)\<newline>\<newline>class Plain:\<newline>    pass''"

definition dualOrmEnv :: Env where
  "dualOrmEnv = \<lparr>readFileContent = (\<lambda>p. if p = ''/repo/models.py'' then Some dualOrmModel else None),
     tsParser = (\<lambda>filePath content root lang. Inl (External ''typescript'')),
     dynRegExp = (\<lambda>source subject. Inr None)\<rparr>"

text \<open>A file system with a Python file and a text file, and no other file.\<close>

definition batchEnv :: Env where
  "batchEnv = \<lparr>readFileContent = (\<lambda>p. if p = ''/repo/models.py'' then Some dualOrmModel
                                     else if p = ''/repo/notes.txt'' then Some ''hello'' else None),
     tsParser = (\<lambda>filePath content root lang. Inl (External ''typescript'')),
     dynRegExp = (\<lambda>source subject. Inr None)\<rparr>"

text \<open>
  The invariant of the loop of \<open>parsePythonFile\<close> when the cursor is at index \<open>j\<close> of
  \<open>N\<close> lines: the line numbers of each list lie between 1 and \<open>min j N\<close> and increase.
\<close>

definition linesUpTo :: "nat \<Rightarrow> nat \<Rightarrow> nat list \<Rightarrow> bool" where
  "linesUpTo j N ls = ((\<forall>l \<in> set ls. 1 \<le> l \<and> l \<le> j \<and> l \<le> N) \<and> sorted_wrt (<) ls)"

definition pyInv :: "nat \<Rightarrow> nat \<Rightarrow> PyState \<Rightarrow> bool" where
  "pyInv j N st =
     (linesUpTo j N (map fn_line (ps_functions st)) \<and>
      linesUpTo j N (map cls_line (ps_classes st)) \<and>
      linesUpTo j N (map imp_line (ps_imports st)) \<and>
      (\<forall>c \<in> set (ps_classes st). linesUpTo j N (map fn_line (cls_methods c))))"

text \<open>A module with imports, a class with two methods and two functions.\<close>

definition sampleModule :: string where
  "sampleModule = ''import os\<newline>from a.b import c as d, e\<newline>\"\"\" Doc. \"\"\"\<newline>class A(B):\<newline>    \"\"\"Inner.\"\"\"\<newline>    async def f(self, a, b): pass\<newline>    def g(self): pass\<newline>async def h(x): pass\<newline>def k(): pass''"

text \<open>
  Two classes that each declare a column \<open>id\<close>; two classes that each declare a column
  \<open>name\<close> whose type has an argument in parentheses; a class with a primary key; and a
  class with a foreign-key column \<open>user_id\<close> declared before its primary key \<open>id\<close>.
\<close>

definition sameNamedColumns :: string where
  "sameNamedColumns = ''class A(Base):\<newline>    id = Column(Integer, nullable=False)\<newline>class B(Base):\<newline>    id = Column(Integer, primary_key=True)''"

definition nestedParenColumns :: string where
  "nestedParenColumns = ''class A(Base):\<newline>    name = Column(String(50), nullable=False)\<newline>class B(Base):\<newline>    name = Column(String(50))''"

definition primaryKeyModel :: string where
  "primaryKeyModel = ''class User(Base):\<newline>    id = Column(Integer, primary_key=True)''"

definition foreignKeyBeforeId :: string where
  "foreignKeyBeforeId = ''class Post(Base):\<newline>    user_id = Column(Integer, ForeignKey('users.id'))\<newline>    id = Column(Integer, primary_key=True)''"

text \<open>
  A view with a route decorator and a methods list, alone and followed by a function
  without decorator; a view with a route decorator without methods list, alone and
  after a view whose decorator has one.
\<close>

definition widgetsView :: string where
  "widgetsView = ''@app.route('/widgets', methods=['GET','POST'])\<newline>def list_widgets():\<newline>    return []''"

definition widgetsViewWithHelper :: string where
  "widgetsViewWithHelper = ''@app.route('/widgets', methods=['GET','POST'])\<newline>def list_widgets():\<newline>    return []\<newline>\<newline>def helper():\<newline>    return 1''"

definition widgetsViewNoMethods :: string where
  "widgetsViewNoMethods = ''import flask\<newline>\<newline>@app.route('/widgets')\<newline>def list_widgets():\<newline>    return []''"

definition widgetsViewAfterOtherView :: string where
  "widgetsViewAfterOtherView = ''@app.route('/items', methods=['PUT','DELETE'])\<newline>def edit_items():\<newline>    return []\<newline>\<newline>@app.route('/widgets')\<newline>def list_widgets():\<newline>    return []''"

text \<open>A class with its single-line docstring on the first line of its body.\<close>

definition docstringAfterHeader :: string where
  "docstringAfterHeader = ''class User(Base):\<newline>    \"\"\"A user.\"\"\"\<newline>    def greet(self): pass''"

section \<open>The claims\<close>

text \<open>
  C1 (the code differs). For the file \<open>/repo/app/api/users/[id]/route.ts\<close> exporting a
  \<open>GET\<close> handler function, route extraction emits exactly one endpoint, with method GET,
  handler \<open>get\<close> and line 1, but its path is \<open>/api/users/:id/route\<close>: the file name
  \<open>route\<close> stays in the path. The Pages Router file \<open>/repo/pages/api/users/[id].ts\<close> with
  a default export gives the path \<open>/api/users/:id\<close>.
\<close>

theorem nextjs_app_route_keeps_file_name:
  "extractNextJSRoutes ''/repo/app/api/users/[id]/route.ts'' fileIndex getHandlerSource =
     [\<lparr>ep_method = ''GET'', ep_path = ''/api/users/:id/route'', ep_handler = ''get'',
       ep_file = fi_relativePath fileIndex, ep_line = 1, ep_auth = False\<rparr>] \<and>
   extractExpressRoutes fileIndex getHandlerSource = [] \<and>
   extractNestJSRoutes fileIndex getHandlerSource = [] \<and>
   extractNextJSRoutes ''/repo/pages/api/users/[id].ts'' fileIndex defaultHandlerSource =
     [\<lparr>ep_method = ''GET'', ep_path = ''/api/users/:id'', ep_handler = ''get'',
       ep_file = fi_relativePath fileIndex, ep_line = 1, ep_auth = False\<rparr>]"
  by code_simp

text \<open>
  C5 (the code differs). The depth count of a column call starts from the text after
  \<open>Column(\<close>, so the opening parenthesis of the call itself is not counted: for
  \<open>ts = Column(DateTime, default=\<close> the count is 0, no continuation line is consumed,
  and the next line \<open>lambda: now())\<close> is read as a class attribute of its own.
\<close>

theorem multi_line_column_not_consumed:
  "map cls_properties (fi_classes (parsePythonFile allOnConfig ''/repo/m.py'' multiLineColumn ''/repo''))
     = [[''ts: DateTime'', ''lambda: now())'']] \<and>
   parenBalance ''DateTime, default='' = 0 \<and>
   columnContinuation (str_split multiLineColumn [CHR 0x0A]) 2 (parenBalance ''DateTime, default='')
     ''DateTime, default='' 1 = (''DateTime, default='', 1)"
  by code_simp

text \<open>
  C7 (the code differs). The scan for the route decorator covers the declaration line
  and the nine lines before it. A decorator ten lines above the \<open>def\<close> is not seen and
  the function gets no endpoint; nine lines above, it is seen.
\<close>

theorem flask_decorator_ten_lines_above_missed:
  "extractFlaskRoutes (parsePythonFile allOnConfig ''/repo/views.py'' decoratorTenAbove ''/repo'')
     decoratorTenAbove = [] \<and>
   map fn_line (fi_functions (parsePythonFile allOnConfig ''/repo/views.py'' decoratorTenAbove ''/repo''))
     = [11] \<and>
   flaskWindow (str_split decoratorTenAbove [CHR 0x0A]) 11 = [1, 2, 3, 4, 5, 6, 7, 8, 9, 10] \<and>
   extractFlaskRoutes (parsePythonFile allOnConfig ''/repo/views.py'' decoratorNineAbove ''/repo'')
     decoratorNineAbove =
     [\<lparr>ep_method = ''GET'', ep_path = ''/far'', ep_handler = ''far_view'',
       ep_file = ''views.py'', ep_line = 10, ep_auth = False\<rparr>]"
  by code_simp

text \<open>
  C8. There is a single input file for which two schema rules both match one class and
  the table list gets two tables with that class's name: for \<open>dualOrmModel\<close> the file has
  the one class \<open>User\<close>, the declarative-column rule pushes a table \<open>User\<close> with the column
  \<open>id\<close>, and the model-field rule pushes a second table \<open>User\<close> with the column \<open>name\<close>.
\<close>

theorem two_schema_rules_two_tables:
  "map cls_name (concat (map fi_classes (gs_files (generateIndexLoop dualOrmEnv allOnConfig ''/repo''
      [''/repo/models.py''])))) = [''User''] \<and>
   dbTables (generateIndexLoop dualOrmEnv allOnConfig ''/repo'' [''/repo/models.py'']) =
     [\<lparr>tbl_name = ''User'', tbl_file = ''models.py'', tbl_line = 1,
       tbl_columns = [\<lparr>col_name = ''id'', col_type = ''Integer'', col_nullable = True,
                       col_primary = True, col_foreign = None\<rparr>]\<rparr>,
      \<lparr>tbl_name = ''User'', tbl_file = ''models.py'', tbl_line = 1,
       tbl_columns = [\<lparr>col_name = ''name'', col_type = ''CharField'', col_nullable = False,
                       col_primary = False, col_foreign = None\<rparr>]\<rparr>]"
  by code_simp

lemma parseFile_unsupported:
  "path_extname file \<notin> set [''.ts'', ''.tsx'', ''.js'', ''.jsx'', ''.py''] \<Longrightarrow>
   parseFile cfg p file content root = Inl (UnsupportedFileType (path_extname file))"
  by (simp add: parseFile_def Let_def)

lemma processFile_failed:
  assumes "readFileContent env bad = None \<or>
           path_extname bad \<notin> set [''.ts'', ''.tsx'', ''.js'', ''.jsx'', ''.py''] \<or>
           (\<exists>content e. readFileContent env bad = Some content \<and>
              parseFile cfg (tsParser env) bad content root = Inl e)"
  shows "processFile env cfg root st bad = st"
proof (cases "readFileContent env bad")
  case None
  then show ?thesis by (simp add: processFile_def)
next
  case (Some content)
  with assms have "\<exists>e. parseFile cfg (tsParser env) bad content root = Inl e"
    using parseFile_unsupported[of bad cfg "tsParser env" content root] by auto
  with Some show ?thesis by (auto simp: processFile_def)
qed

text \<open>
  C2. A file whose read fails, or whose extension is none of the five the dispatch
  knows, or whose parse throws, leaves every accumulator of the loop as it was: no file
  record, no count, no endpoint, no table, no technology tag. The loop over a batch
  with such a file ends in the state of the loop over the batch without it, so the
  other files are processed in full and the run goes on.
\<close>

theorem failed_file_contributes_nothing:
  assumes "readFileContent env bad = None \<or>
           path_extname bad \<notin> set [''.ts'', ''.tsx'', ''.js'', ''.jsx'', ''.py''] \<or>
           (\<exists>content e. readFileContent env bad = Some content \<and>
              parseFile cfg (tsParser env) bad content root = Inl e)"
  shows "processFile env cfg root st bad = st \<and>
         generateIndexLoop env cfg root (before @ bad # after) =
           generateIndexLoop env cfg root (before @ after)"
  using processFile_failed[OF assms] by (simp add: generateIndexLoop_def)

theorem failed_file_contributes_nothing_witness:
  "path_extname ''/repo/notes.txt'' = ''.txt'' \<and>
   readFileContent batchEnv ''/repo/gone.py'' = None \<and>
   generateIndexLoop batchEnv allOnConfig ''/repo''
     [''/repo/notes.txt'', ''/repo/models.py'', ''/repo/gone.py''] =
     generateIndexLoop batchEnv allOnConfig ''/repo'' [''/repo/models.py''] \<and>
   fileCount (generateIndexLoop batchEnv allOnConfig ''/repo'' [''/repo/models.py'']) = 1"
proof -
  have ext: "path_extname ''/repo/notes.txt'' = ''.txt''" by code_simp
  have gone: "readFileContent batchEnv ''/repo/gone.py'' = None" by code_simp
  have a: "generateIndexLoop batchEnv allOnConfig ''/repo''
      ([] @ ''/repo/notes.txt'' # [''/repo/models.py'', ''/repo/gone.py'']) =
     generateIndexLoop batchEnv allOnConfig ''/repo'' ([] @ [''/repo/models.py'', ''/repo/gone.py''])"
    using failed_file_contributes_nothing[of batchEnv "''/repo/notes.txt''" allOnConfig "''/repo''"
        initGenState "[]" "[''/repo/models.py'', ''/repo/gone.py'']"] ext
    by simp
  have b: "generateIndexLoop batchEnv allOnConfig ''/repo'' ([''/repo/models.py''] @ ''/repo/gone.py'' # []) =
     generateIndexLoop batchEnv allOnConfig ''/repo'' ([''/repo/models.py''] @ [])"
    using failed_file_contributes_nothing[of batchEnv "''/repo/gone.py''" allOnConfig "''/repo''"
        initGenState "[''/repo/models.py'']" "[]"] gone
    by simp
  have c: "fileCount (generateIndexLoop batchEnv allOnConfig ''/repo'' [''/repo/models.py'']) = 1"
    by code_simp
  from a b c ext gone show ?thesis by simp
qed

lemma linesUpTo_mono: "linesUpTo j N ls \<Longrightarrow> j \<le> j' \<Longrightarrow> linesUpTo j' N ls"
  by (auto simp: linesUpTo_def)

lemma linesUpTo_snoc: "linesUpTo i N ls \<Longrightarrow> i < N \<Longrightarrow> linesUpTo (Suc i) N (ls @ [Suc i])"
  by (auto simp: linesUpTo_def sorted_wrt_append)

lemma linesUpTo_Nil: "linesUpTo j N []"
  by (simp add: linesUpTo_def)

lemma pyInv_mono: "pyInv j N st \<Longrightarrow> j \<le> j' \<Longrightarrow> pyInv j' N st"
  by (auto simp: pyInv_def intro: linesUpTo_mono)

lemma pyInv_updateCurrent:
  assumes "pyInv j N st" and "j \<le> j'"
    and "\<And>c. cls_line (f c) = cls_line c"
    and "\<And>c. linesUpTo j N (map fn_line (cls_methods c)) \<Longrightarrow>
              linesUpTo j' N (map fn_line (cls_methods (f c)))"
  shows "pyInv j' N (updateCurrent f st)"
proof (cases "currentClass st")
  case None
  with assms(1,2) show ?thesis by (simp add: updateCurrent_def pyInv_mono)
next
  case (Some k)
  let ?cs = "ps_classes st"
  have lines: "map cls_line (?cs[k := f (?cs ! k)]) = map cls_line ?cs"
  proof (cases "k < length ?cs")
    case True
    then have "(map cls_line ?cs)[k := cls_line (?cs ! k)] = map cls_line ?cs"
      by (metis list_update_id nth_map)
    then show ?thesis by (simp add: map_update assms(3))
  next
    case False
    then have "length ?cs \<le> k" by simp
    then have "?cs[k := f (?cs ! k)] = ?cs" by (rule list_update_beyond)
    then show ?thesis by simp
  qed
  have meth: "linesUpTo j' N (map fn_line (cls_methods c))" if "c \<in> set (?cs[k := f (?cs ! k)])" for c
  proof (cases "k < length ?cs")
    case True
    from that have "c = f (?cs ! k) \<or> c \<in> set ?cs"
      using set_update_subset_insert[of ?cs k "f (?cs ! k)"] by auto
    moreover have "linesUpTo j N (map fn_line (cls_methods (?cs ! k)))"
      using assms(1) True by (simp add: pyInv_def)
    ultimately show ?thesis
      using assms(1,2,4) by (auto simp: pyInv_def intro: linesUpTo_mono)
  next
    case False
    then have "?cs[k := f (?cs ! k)] = ?cs" by (simp add: list_update_beyond)
    with that assms(1,2) show ?thesis by (auto simp: pyInv_def intro: linesUpTo_mono)
  qed
  from assms(1,2) have rest: "linesUpTo j' N (map fn_line (ps_functions st))"
    "linesUpTo j' N (map cls_line ?cs)" "linesUpTo j' N (map imp_line (ps_imports st))"
    by (auto simp: pyInv_def intro: linesUpTo_mono)
  show ?thesis
    using Some lines meth rest by (simp add: updateCurrent_def pyInv_def)
qed

lemma pyInv_pushProperty:
  assumes "pyInv j N st" and "j \<le> j'"
  shows "pyInv j' N (pushProperty p st)"
  unfolding pushProperty_def
  using assms by (intro pyInv_updateCurrent[where j = j]) (auto intro: linesUpTo_mono)

lemma pyInv_fields:
  "ps_functions st' = ps_functions st \<Longrightarrow> ps_classes st' = ps_classes st \<Longrightarrow>
   ps_imports st' = ps_imports st \<Longrightarrow> pyInv j N st' = pyInv j N st"
  by (simp add: pyInv_def)

lemma pyInv_docstringRule: "pyInv j N (docstringRule ln st) = pyInv j N st"
  by (rule pyInv_fields) (simp_all add: docstringRule_def Let_def)

lemma pyInv_classRule:
  assumes "classRule ln (Suc i) indent st = Some st'" and "pyInv i N st" and "i < N"
  shows "pyInv (Suc i) N st'"
proof -
  have a: "linesUpTo (Suc i) N (map cls_line (ps_classes st) @ [Suc i])"
    using assms(2,3) by (simp add: pyInv_def linesUpTo_snoc)
  have b: "pyInv (Suc i) N st"
    using assms(2) by (rule pyInv_mono) simp
  from assms(1) a b show ?thesis
    by (auto simp: classRule_def pyInv_def linesUpTo_Nil split: option.splits)
qed

lemma pyInv_columnRule:
  "columnRule lines i ln indent st = Some (i', st') \<Longrightarrow> pyInv i N st \<Longrightarrow> pyInv (Suc i) N st'"
  by (auto simp: columnRule_def Let_def split: if_splits option.splits prod.splits
      intro: pyInv_pushProperty)

lemma pyInv_attrRule:
  "attrRule ln indent st = Some st' \<Longrightarrow> pyInv i N st \<Longrightarrow> pyInv (Suc i) N st'"
  by (auto simp: attrRule_def Let_def split: if_splits option.splits
      intro: pyInv_pushProperty)

lemma pyInv_methodRule:
  assumes "methodRule ln (Suc i) indent st = Some st'" and "pyInv i N st" and "i < N"
  shows "pyInv (Suc i) N st'"
proof -
  have key: "pyInv (Suc i) N
      ((updateCurrent (\<lambda>c. c\<lparr>cls_methods := cls_methods c @ [m]\<rparr>) st)\<lparr>pendingDocstring := None\<rparr>)"
    if m: "fn_line m = Suc i" for m
  proof -
    have "pyInv (Suc i) N (updateCurrent (\<lambda>c. c\<lparr>cls_methods := cls_methods c @ [m]\<rparr>) st)"
      using assms(2,3) by (intro pyInv_updateCurrent[where j = i]) (auto simp: m intro: linesUpTo_snoc)
    then show ?thesis by (simp add: pyInv_def)
  qed
  from assms(1) show ?thesis
    by (auto simp: methodRule_def Let_def split: if_splits option.splits intro!: key)
qed

lemma pyInv_functionRule:
  assumes "functionRule ln (Suc i) indent st = Some st'" and "pyInv i N st" and "i < N"
  shows "pyInv (Suc i) N st'"
proof -
  have a: "linesUpTo (Suc i) N (map fn_line (ps_functions st) @ [Suc i])"
    using assms(2,3) by (simp add: pyInv_def linesUpTo_snoc)
  have b: "pyInv (Suc i) N st"
    using assms(2) by (rule pyInv_mono) simp
  from assms(1) a b show ?thesis
    by (auto simp: functionRule_def Let_def pyInv_def split: option.splits if_splits)
qed

lemma pyInv_resetRule: "pyInv j N (resetRule ln indent st) = pyInv j N st"
  by (rule pyInv_fields) (simp_all add: resetRule_def)

lemma pyInv_importRule:
  assumes "pyInv i N st" and "i < N"
  shows "pyInv (Suc i) N (importRule cfg ln (Suc i) st)"
proof -
  have a: "linesUpTo (Suc i) N (map imp_line (ps_imports st) @ [Suc i])"
    using assms by (simp add: pyInv_def linesUpTo_snoc)
  have b: "pyInv (Suc i) N st"
    using assms(1) by (rule pyInv_mono) simp
  from a b show ?thesis
    by (auto simp: importRule_def Let_def pyInv_def split: option.splits)
qed

lemma pyInv_parseLine:
  assumes "pyInv i N st" and "i < N"
  shows "pyInv (Suc i) N (snd (parseLine cfg lines i st))"
proof -
  have mono: "pyInv (Suc i) N st" using assms(1) by (rule pyInv_mono) simp
  have doc: "pyInv (Suc i) N (st\<lparr>docstringLines := docstringLines st @ [str_trim (lines ! i)]\<rparr>)"
    using mono by (simp add: pyInv_def)
  have imp: "pyInv (Suc i) N (importRule cfg (lines ! i) (Suc i) (resetRule (lines ! i) (indentOf (lines ! i)) st))"
    using assms by (intro pyInv_importRule) (simp_all add: pyInv_resetRule)
  show ?thesis
    unfolding parseLine_def Let_def
    using mono doc imp assms
    by (auto simp: pyInv_docstringRule split: option.splits
        dest: pyInv_classRule pyInv_columnRule pyInv_attrRule pyInv_methodRule pyInv_functionRule)
qed


lemma columnContinuation_cursor:
  "k < j \<Longrightarrow> k \<le> snd (columnContinuation lines j pc fd k)"
proof (induction lines j pc fd k rule: columnContinuation.induct)
  case (1 lines j parenCount fullDef i)
  show ?case
  proof (cases "parenCount > 0 \<and> j < length lines")
    case True
    with 1 have "j \<le> snd (columnContinuation lines (j + 1)
        (parenCount + parenBalance (str_trim (lines ! j)))
        (fullDef @ '' '' @ str_trim (lines ! j)) j)"
      by simp
    with True 1 show ?thesis
      by (subst columnContinuation.simps) (simp add: Let_def)
  next
    case False
    then show ?thesis
      by (subst columnContinuation.simps) auto
  qed
qed

lemma parseLine_cursor: "i \<le> fst (parseLine cfg lines i st)"
proof -
  have next_cursor: "columnContinuation lines (Suc i) pc fd i = (fd', k) \<Longrightarrow> i \<le> k"
    for pc fd fd' k
    using columnContinuation_cursor[of i "Suc i" lines pc fd] by simp
  have col: "columnRule lines i (lines ! i) (indentOf (lines ! i)) st = Some r \<Longrightarrow> i \<le> fst r" for r
    by (auto simp: columnRule_def Let_def split: if_splits option.splits prod.splits
        dest: next_cursor)
  show ?thesis
    unfolding parseLine_def Let_def
    by (simp split: option.split add: col)
qed

lemma pyInv_parsePythonLoop:
  "pyInv i (length lines) st \<Longrightarrow> pyInv (max i (length lines)) (length lines) (parsePythonLoop cfg lines i st)"
proof (induction cfg lines i st rule: parsePythonLoop.induct)
  case (1 cfg lines i st)
  show ?case
  proof (cases "i < length lines")
    case True
    obtain i' st' where step: "parseLine cfg lines i st = (i', st')"
      by (cases "parseLine cfg lines i st")
    have "pyInv (Suc i) (length lines) st'"
      using pyInv_parseLine[OF "1.prems" True, of cfg lines] step by simp
    moreover have "i \<le> i'"
      using parseLine_cursor[of i cfg lines st] step by simp
    ultimately have "pyInv (Suc i') (length lines) st'"
      by (auto intro: pyInv_mono)
    then have "pyInv (max (Suc i') (length lines)) (length lines) (parsePythonLoop cfg lines (Suc i') st')"
      by (rule "1.IH"[OF True step[symmetric]])
    then have "pyInv (length lines) (length lines) (parsePythonLoop cfg lines (Suc i') st')"
      by (auto simp: pyInv_def linesUpTo_def)
    then show ?thesis
      using True step by (subst parsePythonLoop.simps) (simp add: max_def)
  next
    case False
    with "1.prems" show ?thesis
      by (subst parsePythonLoop.simps) (simp add: max_def)
  qed
qed

text \<open>
  C10. Every function, class, method and import record that \<open>parsePythonFile\<close> makes has a
  line number between 1 and the number of lines of the text, and in the list of
  functions, the list of classes, the list of imports and the list of methods of each
  class the line numbers increase strictly.
\<close>

theorem python_line_numbers:
  "(\<forall>f \<in> set (fi_functions (parsePythonFile cfg filePath content root)).
      1 \<le> fn_line f \<and> fn_line f \<le> length (str_split content [CHR 0x0A])) \<and>
   sorted_wrt (<) (map fn_line (fi_functions (parsePythonFile cfg filePath content root))) \<and>
   (\<forall>c \<in> set (fi_classes (parsePythonFile cfg filePath content root)).
      1 \<le> cls_line c \<and> cls_line c \<le> length (str_split content [CHR 0x0A]) \<and>
      (\<forall>m \<in> set (cls_methods c). 1 \<le> fn_line m \<and> fn_line m \<le> length (str_split content [CHR 0x0A])) \<and>
      sorted_wrt (<) (map fn_line (cls_methods c))) \<and>
   sorted_wrt (<) (map cls_line (fi_classes (parsePythonFile cfg filePath content root))) \<and>
   (\<forall>i \<in> set (fi_imports (parsePythonFile cfg filePath content root)).
      1 \<le> imp_line i \<and> imp_line i \<le> length (str_split content [CHR 0x0A])) \<and>
   sorted_wrt (<) (map imp_line (fi_imports (parsePythonFile cfg filePath content root)))"
proof -
  let ?lines = "str_split content [CHR 0x0A]"
  have "pyInv 0 (length ?lines) initPyState"
    by (simp add: pyInv_def initPyState_def linesUpTo_def)
  then have "pyInv (max 0 (length ?lines)) (length ?lines) (parsePythonLoop cfg ?lines 0 initPyState)"
    by (rule pyInv_parsePythonLoop)
  then show ?thesis
    by (simp add: parsePythonFile_def Let_def pyInv_def linesUpTo_def)
qed


theorem python_line_numbers_witness:
  "length (str_split sampleModule [CHR 0x0A]) = 9 \<and>
   map fn_line (fi_functions (parsePythonFile allOnConfig ''/repo/svc.py'' sampleModule ''/repo'')) = [8, 9] \<and>
   map cls_line (fi_classes (parsePythonFile allOnConfig ''/repo/svc.py'' sampleModule ''/repo'')) = [4] \<and>
   map (\<lambda>c. map fn_line (cls_methods c))
     (fi_classes (parsePythonFile allOnConfig ''/repo/svc.py'' sampleModule ''/repo'')) = [[6, 7]] \<and>
   map imp_line (fi_imports (parsePythonFile allOnConfig ''/repo/svc.py'' sampleModule ''/repo'')) = [1, 2] \<and>
   list_all (\<lambda>f. 1 \<le> fn_line f \<and> fn_line f \<le> length (str_split sampleModule [CHR 0x0A]))
     (fi_functions (parsePythonFile allOnConfig ''/repo/svc.py'' sampleModule ''/repo'')) \<and>
   sorted_wrt (<) (map fn_line (fi_functions (parsePythonFile allOnConfig ''/repo/svc.py'' sampleModule ''/repo'')))"
proof -
  have ev: "length (str_split sampleModule [CHR 0x0A]) = 9 \<and>
   map fn_line (fi_functions (parsePythonFile allOnConfig ''/repo/svc.py'' sampleModule ''/repo'')) = [8, 9] \<and>
   map cls_line (fi_classes (parsePythonFile allOnConfig ''/repo/svc.py'' sampleModule ''/repo'')) = [4] \<and>
   map (\<lambda>c. map fn_line (cls_methods c))
     (fi_classes (parsePythonFile allOnConfig ''/repo/svc.py'' sampleModule ''/repo'')) = [[6, 7]] \<and>
   map imp_line (fi_imports (parsePythonFile allOnConfig ''/repo/svc.py'' sampleModule ''/repo'')) = [1, 2]"
    by code_simp
  have "list_all (\<lambda>f. 1 \<le> fn_line f \<and> fn_line f \<le> length (str_split sampleModule [CHR 0x0A]))
     (fi_functions (parsePythonFile allOnConfig ''/repo/svc.py'' sampleModule ''/repo'')) \<and>
   sorted_wrt (<) (map fn_line (fi_functions (parsePythonFile allOnConfig ''/repo/svc.py'' sampleModule ''/repo'')))"
    using python_line_numbers[of allOnConfig "''/repo/svc.py''" sampleModule "''/repo''"]
    by (simp add: list_all_iff)
  with ev show ?thesis by simp
qed

text \<open>
  C9 (the code differs). The rule looks the definition of a column up in the whole file,
  whatever the class, with the pattern \<open>name\s*=\s*(?:db\.)?Column\([^)]+\)\<close>. In
  \<open>sameNamedColumns\<close> both columns \<open>id\<close> are classified by the first definition, that of
  class \<open>A\<close>. But the pattern ends at the first closing parenthesis: in
  \<open>nestedParenColumns\<close> the first definition of \<open>name\<close> is
  \<open>name = Column(String(50), nullable=False)\<close>, the text found is
  \<open>name = Column(String(50)\<close>, and the columns \<open>name\<close> of both classes are nullable.
\<close>

theorem same_named_columns_definition_cut_short:
  "extractSQLAlchemySchema (parsePythonFile allOnConfig ''/repo/m.py'' nestedParenColumns ''/repo'')
      nestedParenColumns [] =
     ([\<lparr>tbl_name = ''A'', tbl_file = ''m.py'', tbl_line = 1,
        tbl_columns = [\<lparr>col_name = ''name'', col_type = ''String'', col_nullable = True,
                        col_primary = False, col_foreign = None\<rparr>]\<rparr>,
       \<lparr>tbl_name = ''B'', tbl_file = ''m.py'', tbl_line = 3,
        tbl_columns = [\<lparr>col_name = ''name'', col_type = ''String'', col_nullable = True,
                        col_primary = False, col_foreign = None\<rparr>]\<rparr>], None) \<and>
   map_option m_text (str_match nestedParenColumns (re_columnDef ''name'')) =
     Some ''name = Column(String(50)'' \<and>
   extractSQLAlchemySchema (parsePythonFile allOnConfig ''/repo/m.py'' sameNamedColumns ''/repo'')
      sameNamedColumns [] =
     ([\<lparr>tbl_name = ''A'', tbl_file = ''m.py'', tbl_line = 1,
        tbl_columns = [\<lparr>col_name = ''id'', col_type = ''Integer'', col_nullable = False,
                        col_primary = False, col_foreign = None\<rparr>]\<rparr>,
       \<lparr>tbl_name = ''B'', tbl_file = ''m.py'', tbl_line = 3,
        tbl_columns = [\<lparr>col_name = ''id'', col_type = ''Integer'', col_nullable = False,
                        col_primary = False, col_foreign = None\<rparr>]\<rparr>], None) \<and>
   map_option m_text (str_match sameNamedColumns (re_columnDef ''id'')) =
     Some ''id = Column(Integer, nullable=False)''"
  by code_simp

text \<open>
  C6 (the code differs). For the class \<open>User\<close> of \<open>primaryKeyModel\<close> the rule gives the
  column record of \<open>id = Column(Integer, primary_key=True)\<close> as: name \<open>id\<close>, type
  \<open>Integer\<close>, nullable, primary, no foreign-key target. For the class \<open>Post\<close> of
  \<open>foreignKeyBeforeId\<close>, with the same definition of \<open>id\<close> under a column \<open>user_id\<close>, the
  pattern for \<open>id\<close> matches inside \<open>user_id = Column(Integer, ForeignKey('users.id'))\<close>:
  the record of \<open>id\<close> is not primary and has the foreign-key target \<open>users.id\<close>.
\<close>

theorem primary_key_column_classified_by_other_column:
  "extractSQLAlchemySchema (parsePythonFile allOnConfig ''/repo/m.py'' foreignKeyBeforeId ''/repo'')
      foreignKeyBeforeId [] =
     ([\<lparr>tbl_name = ''Post'', tbl_file = ''m.py'', tbl_line = 1,
        tbl_columns = [\<lparr>col_name = ''user_id'', col_type = ''Integer'', col_nullable = True,
                        col_primary = False, col_foreign = Some ''users.id''\<rparr>,
                       \<lparr>col_name = ''id'', col_type = ''Integer'', col_nullable = True,
                        col_primary = False, col_foreign = Some ''users.id''\<rparr>]\<rparr>], None) \<and>
   str_includes foreignKeyBeforeId ''Base'' \<and>
   map_option m_text (str_match foreignKeyBeforeId (re_columnDef ''id'')) =
     Some ''id = Column(Integer, ForeignKey('users.id')'' \<and>
   extractSQLAlchemySchema (parsePythonFile allOnConfig ''/repo/m.py'' primaryKeyModel ''/repo'')
      primaryKeyModel [] =
     ([\<lparr>tbl_name = ''User'', tbl_file = ''m.py'', tbl_line = 1,
        tbl_columns = [\<lparr>col_name = ''id'', col_type = ''Integer'', col_nullable = True,
                        col_primary = True, col_foreign = None\<rparr>]\<rparr>], None)"
  by code_simp

text \<open>
  C3 (the code differs). For \<open>widgetsView\<close>, the decorator with its methods list
  directly above \<open>list_widgets\<close> and nothing else, extraction gives the two endpoints GET and
  POST \<open>/widgets\<close> with handler \<open>list_widgets\<close> and line 2; for \<open>widgetsViewNoMethods\<close> it
  gives GET \<open>/widgets\<close> alone. The scan of the lines above a function does not stop at
  the declaration of another function. In \<open>widgetsViewWithHelper\<close> the function
  \<open>helper\<close> below the view has no decorator and gets the two endpoints too: four
  records. In \<open>widgetsViewAfterOtherView\<close> the decorator of \<open>list_widgets\<close> has no methods
  list and the view gets PUT and DELETE, the methods of the view above it, and no GET.
\<close>

theorem flask_route_reaches_other_functions:
  "extractFlaskRoutes (parsePythonFile allOnConfig ''/repo/views.py'' widgetsViewWithHelper ''/repo'')
     widgetsViewWithHelper =
     [\<lparr>ep_method = ''GET'', ep_path = ''/widgets'', ep_handler = ''list_widgets'',
       ep_file = ''views.py'', ep_line = 2, ep_auth = False\<rparr>,
      \<lparr>ep_method = ''POST'', ep_path = ''/widgets'', ep_handler = ''list_widgets'',
       ep_file = ''views.py'', ep_line = 2, ep_auth = False\<rparr>,
      \<lparr>ep_method = ''GET'', ep_path = ''/widgets'', ep_handler = ''helper'',
       ep_file = ''views.py'', ep_line = 5, ep_auth = False\<rparr>,
      \<lparr>ep_method = ''POST'', ep_path = ''/widgets'', ep_handler = ''helper'',
       ep_file = ''views.py'', ep_line = 5, ep_auth = False\<rparr>] \<and>
   extractFlaskRoutes (parsePythonFile allOnConfig ''/repo/views.py'' widgetsViewAfterOtherView ''/repo'')
     widgetsViewAfterOtherView =
     [\<lparr>ep_method = ''PUT'', ep_path = ''/items'', ep_handler = ''edit_items'',
       ep_file = ''views.py'', ep_line = 2, ep_auth = False\<rparr>,
      \<lparr>ep_method = ''DELETE'', ep_path = ''/items'', ep_handler = ''edit_items'',
       ep_file = ''views.py'', ep_line = 2, ep_auth = False\<rparr>,
      \<lparr>ep_method = ''PUT'', ep_path = ''/widgets'', ep_handler = ''list_widgets'',
       ep_file = ''views.py'', ep_line = 6, ep_auth = False\<rparr>,
      \<lparr>ep_method = ''DELETE'', ep_path = ''/widgets'', ep_handler = ''list_widgets'',
       ep_file = ''views.py'', ep_line = 6, ep_auth = False\<rparr>] \<and>
   extractFlaskRoutes (parsePythonFile allOnConfig ''/repo/views.py'' widgetsView ''/repo'')
     widgetsView =
     [\<lparr>ep_method = ''GET'', ep_path = ''/widgets'', ep_handler = ''list_widgets'',
       ep_file = ''views.py'', ep_line = 2, ep_auth = False\<rparr>,
      \<lparr>ep_method = ''POST'', ep_path = ''/widgets'', ep_handler = ''list_widgets'',
       ep_file = ''views.py'', ep_line = 2, ep_auth = False\<rparr>] \<and>
   extractFlaskRoutes (parsePythonFile allOnConfig ''/repo/views.py'' widgetsViewNoMethods ''/repo'')
     widgetsViewNoMethods =
     [\<lparr>ep_method = ''GET'', ep_path = ''/widgets'', ep_handler = ''list_widgets'',
       ep_file = ''views.py'', ep_line = 4, ep_auth = False\<rparr>]"
  by code_simp

text \<open>
  C4 (the code differs). For the class \<open>User\<close> of \<open>docstringAfterHeader\<close>, whose
  single-line docstring \<open>"""A user."""\<close> is the first line of the class body, the class
  record has no description: the text is kept as the pending description and given to
  the next declaration, the method \<open>greet\<close>.
\<close>

theorem class_docstring_after_header_not_attached:
  "fi_classes (parsePythonFile allOnConfig ''/repo/user.py'' docstringAfterHeader ''/repo'') =
     [\<lparr>cls_name = ''User'', cls_line = 1,
       cls_methods = [\<lparr>fn_name = ''greet'', fn_params = [], fn_returnType = None, fn_line = 3,
                       fn_isAsync = False, fn_isExported = False,
                       fn_description = Some ''A user.''\<rparr>],
       cls_isExported = True, cls_description = None, cls_properties = []\<rparr>]"
  by code_simp

end
